theory Spec2Isabelle
  imports Main
begin

section \<open>word2base64image: a Word document to a stacked image and its base64 data URL\<close>

text \<open>
  The repository is one Python function, \<open>word_to_base64image\<close>, in
  \<^verbatim>\<open>src/word2base64image.py\<close>. It converts a document to PDF through LibreOffice
  or, on Windows, through the COM interface of Microsoft Word, renders every page of the
  PDF, stacks the pages in one image and writes that image and its base64 data URL.

  A Python \<open>str\<close> is modelled by its UTF-8 encoding, a HOL \<open>string\<close> (one
  \<open>char\<close> per byte), and a Python \<open>bytes\<close> value by a \<open>string\<close> as well.
  Python integers are \<open>int\<close>; image sizes, which Pillow keeps non-negative, are
  \<open>nat\<close>.
\<close>

subsection \<open>Paths\<close>

type_synonym path = string

text \<open>
  The function reaches the file names through \<open>os.path\<close>, which is
  \<open>posixpath\<close> or \<open>ntpath\<close> depending on the host. The four functions it
  calls are the fields of a record, so that every property holds for both; \<open>posixpath\<close>
  below is the POSIX instance (CPython's \<open>posixpath.py\<close> and \<open>genericpath.py\<close>).
\<close>

record path_module =
  dirname :: "path \<Rightarrow> path"
  basename :: "path \<Rightarrow> path"
  splitext :: "path \<Rightarrow> path \<times> path"
  join :: "path \<Rightarrow> path \<Rightarrow> path"

text \<open>\<open>s.rfind(c)\<close>: the last index of \<open>c\<close> in \<open>s\<close>, or \<open>-1\<close>.\<close>

definition rfind :: "string \<Rightarrow> char \<Rightarrow> int" where
  "rfind s c =
     (if c \<in> set s
      then int (length s) - 1 - int (length (takeWhile (\<lambda>x. x \<noteq> c) (rev s)))
      else - 1)"

text \<open>\<open>s.rstrip(c)\<close> for a single character \<open>c\<close>.\<close>

definition rstrip :: "string \<Rightarrow> char \<Rightarrow> string" where
  "rstrip s c = rev (dropWhile (\<lambda>x. x = c) (rev s))"

definition posix_dirname :: "path \<Rightarrow> path" where
  "posix_dirname p =
     (let i = rfind p (CHR ''/'') + 1;
          head = take (nat i) p
      in if head \<noteq> [] \<and> head \<noteq> replicate (length head) (CHR ''/'')
         then rstrip head (CHR ''/'') else head)"

definition posix_basename :: "path \<Rightarrow> path" where
  "posix_basename p = (let i = rfind p (CHR ''/'') + 1 in drop (nat i) p)"

text \<open>
  \<open>genericpath._splitext\<close>: the extension starts at the last dot after the last
  separator, unless only dots stand between that separator and the dot.
\<close>

definition posix_splitext :: "path \<Rightarrow> path \<times> path" where
  "posix_splitext p =
     (let sepIndex = rfind p (CHR ''/'');
          dotIndex = rfind p (CHR ''.'')
      in if dotIndex > sepIndex \<and>
            list_ex (\<lambda>c. c \<noteq> CHR ''.'')
              (take (nat (dotIndex - (sepIndex + 1))) (drop (nat (sepIndex + 1)) p))
         then (take (nat dotIndex) p, drop (nat dotIndex) p)
         else (p, []))"

definition posix_join :: "path \<Rightarrow> path \<Rightarrow> path" where
  "posix_join a b =
     (if b \<noteq> [] \<and> hd b = CHR ''/'' then b
      else if a = [] \<or> last a = CHR ''/'' then a @ b
      else a @ ''/'' @ b)"

definition posixpath :: path_module where
  "posixpath =
     \<lparr>dirname = posix_dirname, basename = posix_basename,
      splitext = posix_splitext, join = posix_join\<rparr>"

subsection \<open>Base64\<close>

text \<open>
  \<open>base64.b64encode\<close> of the standard library: three bytes become four characters of
  the alphabet; one or two remaining bytes are padded with \<open>=\<close>.
\<close>

definition b64_alphabet :: string where
  "b64_alphabet = ''ABCDEFGHIJKLMNOPQRSTUVWXYZabcdefghijklmnopqrstuvwxyz0123456789+/''"

definition b64_char :: "nat \<Rightarrow> char" where
  "b64_char n = b64_alphabet ! (n mod 64)"

fun b64encode :: "string \<Rightarrow> string" where
  "b64encode [] = []"
| "b64encode [a] =
     (let x = (of_char a :: nat)
      in [b64_char (x div 4), b64_char ((x mod 4) * 16), CHR ''='', CHR ''=''])"
| "b64encode [a, b] =
     (let x = (of_char a :: nat); y = (of_char b :: nat)
      in [b64_char (x div 4), b64_char ((x mod 4) * 16 + y div 16),
          b64_char ((y mod 16) * 4), CHR ''=''])"
| "b64encode (a # b # c # rest) =
     (let x = (of_char a :: nat); y = (of_char b :: nat); z = (of_char c :: nat)
      in [b64_char (x div 4), b64_char ((x mod 4) * 16 + y div 16),
          b64_char ((y mod 16) * 4 + z div 64), b64_char (z mod 64)]
         @ b64encode rest)"

subsection \<open>Images\<close>

type_synonym rgb = "nat \<times> nat \<times> nat"

text \<open>
  A Pillow image in mode RGB: its size and the colour of the pixel in column \<open>x\<close> of
  row \<open>y\<close>, which matters for \<open>x < width\<close> and \<open>y < height\<close> only.
\<close>

record image =
  width :: nat
  height :: nat
  pixel :: "nat \<Rightarrow> nat \<Rightarrow> rgb"

text \<open>\<open>Image.new('RGB', (w, h), color)\<close>\<close>

definition Image_new :: "nat \<times> nat \<Rightarrow> rgb \<Rightarrow> image" where
  "Image_new size_wh color =
     \<lparr>width = fst size_wh, height = snd size_wh, pixel = (\<lambda>x y. color)\<rparr>"

text \<open>
  \<open>canvas.paste(img, (x, y))\<close>: the pixels of the box of \<open>img\<close>'s size whose upper
  left corner is \<open>(x, y)\<close> become those of \<open>img\<close>; the size of the canvas stays.
\<close>

definition paste :: "image \<Rightarrow> image \<Rightarrow> int \<times> int \<Rightarrow> image" where
  "paste canvas img box =
     canvas\<lparr>pixel := (\<lambda>x y.
        if fst box \<le> int x \<and> int x < fst box + int (width img) \<and>
           snd box \<le> int y \<and> int y < snd box + int (height img)
        then pixel img (nat (int x - fst box)) (nat (int y - snd box))
        else pixel canvas x y)\<rparr>"

text \<open>
  \<open>max(...)\<close> of a non-empty sequence. On an empty one Python raises; line 111 has
  returned before, so no equation for \<open>[]\<close> is given.
\<close>

fun py_max :: "nat list \<Rightarrow> nat" where
  "py_max (x # xs) = fold max xs x"

text \<open>
  Lines 119 to 123: the loop that pastes every image at the cursor \<open>y_offset\<close> and
  moves the cursor down by the image's height. It returns the canvas and the cursor.
\<close>

fun paste_loop :: "image \<Rightarrow> int \<Rightarrow> int \<Rightarrow> image list \<Rightarrow> image \<times> int" where
  "paste_loop concatenated max_width y_offset [] = (concatenated, y_offset)"
| "paste_loop concatenated max_width y_offset (img # images) =
     (let x_offset = (max_width - int (width img)) div 2;
          concatenated' = paste concatenated img (x_offset, y_offset)
      in paste_loop concatenated' max_width (y_offset + int (height img)) images)"

text \<open>Lines 115 to 123, for the non-empty \<open>images\<close> that line 111 lets through.\<close>

definition concatenate :: "image list \<Rightarrow> image" where
  "concatenate images =
     (let total_height = sum_list (map height images);
          max_width = py_max (map width images);
          concatenated = Image_new (max_width, total_height) (255, 255, 255)
      in fst (paste_loop concatenated (int max_width) 0 images))"

subsection \<open>The world outside the function\<close>

text \<open>
  The file system maps a path, as the program spells it, to a directory or to a file
  with its bytes. Everything the function does to the outside is appended to a log.
\<close>

datatype node = Dir | File string

type_synonym filesystem = "path \<rightharpoonup> node"

text \<open>The lines printed on the console, one constructor for each \<open>print\<close> call.\<close>

datatype message =
    MsgConverting path path      \<comment> \<open>line 45\<close>
  | MsgLibreOfficeDone           \<comment> \<open>line 63\<close>
  | MsgLibreOfficeMissing        \<comment> \<open>line 67\<close>
  | MsgLibreOfficeTimeout        \<comment> \<open>line 69\<close>
  | MsgLibreOfficeFailed string
      \<comment> \<open>line 71; the argument is the captured stderr, of which the line shows the
          UTF-8 decoding, undecodable bytes dropped, stripped of surrounding whitespace\<close>
  | MsgWordDone                  \<comment> \<open>line 86\<close>
  | MsgNoPywin32                 \<comment> \<open>line 89\<close>
  | MsgWordFailed string         \<comment> \<open>line 91, with the exception's text\<close>
  | MsgRendering path            \<comment> \<open>line 97\<close>
  | MsgImageSaved path           \<comment> \<open>line 127\<close>
  | MsgBase64Saved path          \<comment> \<open>line 138\<close>

datatype event =
    Print message
  | Makedirs path
  | SubprocessRun "string list" nat   \<comment> \<open>the command line and the timeout\<close>
  | OsReplace path path
  | ImportWin32com
  | WordExport path path nat          \<comment> \<open>document, target and format code\<close>
  | FitzOpen path
  | SaveJpeg path nat                 \<comment> \<open>target and quality\<close>
  | WriteText path

record world =
  fs :: filesystem
  trace :: "event list"

definition emit :: "event \<Rightarrow> world \<Rightarrow> world" where
  "emit e w = w\<lparr>trace := trace w @ [e]\<rparr>"

text \<open>
  The exceptions that leave the function. The first three are raised by the function
  itself (lines 28, 94 and 112) and carry its message; \<open>FileExistsError\<close> is what
  \<open>os.makedirs\<close> raises on a regular file; \<open>Uncaught\<close> is an exception of a library
  call that no \<open>except\<close> clause of the function catches.
\<close>

datatype error =
    FileNotFoundError string
  | RuntimeError string
  | ValueError string
  | FileExistsError path
  | Uncaught string

definition word_not_found_msg :: string where
  "word_not_found_msg =
     ''Word '' @ [CHR 0xE6, CHR 0x96, CHR 0x87, CHR 0xE4, CHR 0xBB, CHR 0xB6, CHR 0xE6,
       CHR 0x9C, CHR 0xAA, CHR 0xE6, CHR 0x89, CHR 0xBE, CHR 0xE5, CHR 0x88, CHR 0xB0] @ '': ''"

definition all_failed_msg :: string where
  "all_failed_msg =
     [CHR 0xE6, CHR 0x89, CHR 0x80, CHR 0xE6, CHR 0x9C, CHR 0x89] @ '' Word '' @
     [CHR 0xE2, CHR 0x86, CHR 0x92] @ '' PDF '' @
     [CHR 0xE8, CHR 0xBD, CHR 0xAC, CHR 0xE6, CHR 0x8D, CHR 0xA2, CHR 0xE6, CHR 0x96,
      CHR 0xB9, CHR 0xE5, CHR 0xBC, CHR 0x8F, CHR 0xE5, CHR 0x9D, CHR 0x87, CHR 0xE5,
      CHR 0xA4, CHR 0xB1, CHR 0xE8, CHR 0xB4, CHR 0xA5, CHR 0xEF, CHR 0xBC, CHR 0x8C,
      CHR 0xE8, CHR 0xAF, CHR 0xB7, CHR 0xE6, CHR 0xA3, CHR 0x80, CHR 0xE6, CHR 0x9F,
      CHR 0xA5] @ '' LibreOffice '' @ [CHR 0xE6, CHR 0x88, CHR 0x96] @
     '' Microsoft Office '' @ [CHR 0xE5, CHR 0xAE, CHR 0x89, CHR 0xE8, CHR 0xA3, CHR 0x85]"

definition no_pages_msg :: string where
  "no_pages_msg =
     ''PDF '' @ [CHR 0xE4, CHR 0xB8, CHR 0xAD, CHR 0xE6, CHR 0xB2, CHR 0xA1, CHR 0xE6,
       CHR 0x9C, CHR 0x89, CHR 0xE5, CHR 0x8F, CHR 0xAF, CHR 0xE8, CHR 0xBD, CHR 0xAC,
       CHR 0xE6, CHR 0x8D, CHR 0xA2, CHR 0xE7, CHR 0x9A, CHR 0x84, CHR 0xE9, CHR 0xA1,
       CHR 0xB5, CHR 0xE9, CHR 0x9D, CHR 0xA2]"

text \<open>
  How \<open>subprocess.run(..., check=True, capture_output=True, timeout=120)\<close> ends:
  with exit status zero, or with one of the three exceptions the function catches
  (\<open>CalledProcessError\<close> carries the captured stderr), or with any other exception.
\<close>

datatype proc_result =
    Completed
  | ExecNotFound
  | TimeoutExpired
  | CalledProcessError string
  | ProcError string

text \<open>
  The programs and libraries the function calls are parameters: the host's name and path
  module, \<open>os.path.abspath\<close> (which reads the working directory), LibreOffice run
  as a process on a file system, whether \<open>win32com.client\<close> can be imported, the
  session with Word from \<open>Dispatch\<close> to \<open>Quit\<close> (\<open>Some\<close> is the exception it
  raised), PyMuPDF opening a document as the list of its pages and rendering one page at
  the two zoom factors into an RGB image of the pixmap's size (lines 103 to 106), and
  Pillow's JPEG encoder. \<open>'z\<close> is the type of the zoom factors, \<open>'p\<close> of a page.
\<close>

record ('z, 'p) env =
  os_name :: string
  os_path :: path_module
  abspath :: "path \<Rightarrow> path"
  subprocess_run :: "filesystem \<Rightarrow> string list \<Rightarrow> nat \<Rightarrow> proc_result \<times> filesystem"
  win32com_importable :: bool
  word_session :: "filesystem \<Rightarrow> path \<Rightarrow> path \<Rightarrow> nat \<Rightarrow> string option \<times> filesystem"
  fitz_open :: "filesystem \<Rightarrow> path \<Rightarrow> string + 'p list"
  get_pixmap :: "'p \<Rightarrow> 'z \<Rightarrow> 'z \<Rightarrow> string + image"
  jpeg_encode :: "image \<Rightarrow> nat \<Rightarrow> string + string"

subsection \<open>The function, in the order of its lines\<close>

text \<open>
  \<open>os.makedirs(p, exist_ok=True)\<close>: nothing to do on a directory, an error on a
  regular file, a new directory otherwise.
\<close>

definition makedirs :: "path \<Rightarrow> world \<Rightarrow> world \<times> (error + unit)" where
  "makedirs p w =
     (let w' = emit (Makedirs p) w
      in case fs w p of
           Some Dir \<Rightarrow> (w', Inr ())
         | Some (File _) \<Rightarrow> (w', Inl (FileExistsError p))
         | None \<Rightarrow> (w'\<lparr>fs := (fs w)(p \<mapsto> Dir)\<rparr>, Inr ()))"

text \<open>\<open>os.replace(src, dst)\<close> on an existing \<open>src\<close>.\<close>

definition os_replace :: "path \<Rightarrow> path \<Rightarrow> world \<Rightarrow> world" where
  "os_replace src dst w =
     (emit (OsReplace src dst) w)\<lparr>fs := ((fs w)(src := None))(dst := fs w src)\<rparr>"

definition libreoffice_argv :: "path \<Rightarrow> path \<Rightarrow> string list" where
  "libreoffice_argv output_folder word_path =
     [''libreoffice'', ''--headless'', ''--convert-to'', ''pdf'',
      ''--outdir'', output_folder, word_path]"

text \<open>
  Lines 48 to 71, the LibreOffice method. The result is the flag \<open>converted\<close>, or the
  exception that none of the three \<open>except\<close> clauses catches.
\<close>

definition libreoffice_method ::
  "('z, 'p) env \<Rightarrow> world \<Rightarrow> path \<Rightarrow> path \<Rightarrow> path \<Rightarrow> path \<Rightarrow> world \<times> (error + bool)" where
  "libreoffice_method env w word_path output_folder name_without_ext pdf_path =
     (let argv = libreoffice_argv output_folder word_path;
          w1 = emit (SubprocessRun argv 120) w
      in case subprocess_run env (fs w1) argv 120 of
           (Completed, fs') \<Rightarrow>
             (let w2 = w1\<lparr>fs := fs'\<rparr>;
                  generated_pdf = join (os_path env) output_folder (name_without_ext @ ''.pdf'')
              in if fs w2 generated_pdf \<noteq> None
                 then (let w3 = (if generated_pdf \<noteq> pdf_path
                                 then os_replace generated_pdf pdf_path w2 else w2)
                       in (emit (Print MsgLibreOfficeDone) w3, Inr True))
                 else (w2, Inr False))
         | (ExecNotFound, fs') \<Rightarrow>
             (emit (Print MsgLibreOfficeMissing) (w1\<lparr>fs := fs'\<rparr>), Inr False)
         | (TimeoutExpired, fs') \<Rightarrow>
             (emit (Print MsgLibreOfficeTimeout) (w1\<lparr>fs := fs'\<rparr>), Inr False)
         | (CalledProcessError stderr, fs') \<Rightarrow>
             (emit (Print (MsgLibreOfficeFailed stderr)) (w1\<lparr>fs := fs'\<rparr>), Inr False)
         | (ProcError e, fs') \<Rightarrow> (w1\<lparr>fs := fs'\<rparr>, Inl (Uncaught e)))"

text \<open>
  Lines 74 to 91, the Microsoft Word method: entered only when nothing is converted yet
  and the host is Windows; every exception is caught. The result is \<open>converted\<close>.
\<close>

definition word_method ::
  "('z, 'p) env \<Rightarrow> world \<Rightarrow> bool \<Rightarrow> path \<Rightarrow> path \<Rightarrow> world \<times> bool" where
  "word_method env w converted word_path pdf_path =
     (if \<not> converted \<and> os_name env = ''nt''
      then (let w1 = emit ImportWin32com w
            in if \<not> win32com_importable env
               then (emit (Print MsgNoPywin32) w1, converted)
               else (let src = abspath env word_path;
                         dst = abspath env pdf_path;
                         w2 = emit (WordExport src dst 17) w1
                     in case word_session env (fs w2) src dst 17 of
                          (None, fs') \<Rightarrow> (emit (Print MsgWordDone) (w2\<lparr>fs := fs'\<rparr>), True)
                        | (Some e, fs') \<Rightarrow>
                            (emit (Print (MsgWordFailed e)) (w2\<lparr>fs := fs'\<rparr>), converted)))
      else (w, converted))"

text \<open>
  Lines 27 to 94, from the check of the source path to the check of \<open>converted\<close>.
  The result is the three output paths of lines 40 to 42.
\<close>

definition word_to_pdf ::
  "('z, 'p) env \<Rightarrow> world \<Rightarrow> path \<Rightarrow> world \<times> (error + path \<times> path \<times> path)" where
  "word_to_pdf env w word_path =
     (if fs w word_path = None
      then (w, Inl (FileNotFoundError (word_not_found_msg @ word_path)))
      else
        (let word_dir = dirname (os_path env) word_path;
             word_name = basename (os_path env) word_path;
             name_without_ext = fst (splitext (os_path env) word_name);
             output_folder = join (os_path env) word_dir name_without_ext
         in case makedirs output_folder w of
              (w1, Inl e) \<Rightarrow> (w1, Inl e)
            | (w1, Inr _) \<Rightarrow>
              (let pdf_path = join (os_path env) output_folder (name_without_ext @ ''.pdf'');
                   image_path = join (os_path env) output_folder ''img.jpg'';
                   base64_txt_path = join (os_path env) output_folder ''base64.txt'';
                   w2 = emit (Print (MsgConverting word_path pdf_path)) w1
               in case libreoffice_method env w2 word_path output_folder
                         name_without_ext pdf_path of
                    (w3, Inl e) \<Rightarrow> (w3, Inl e)
                  | (w3, Inr converted) \<Rightarrow>
                    (case word_method env w3 converted word_path pdf_path of
                       (w4, converted') \<Rightarrow>
                         if \<not> converted'
                         then (w4, Inl (RuntimeError all_failed_msg))
                         else (w4, Inr (pdf_path, image_path, base64_txt_path))))))"

text \<open>
  Lines 102 to 107: the pages are rendered by index, \<open>page_nums\<close> being
  \<open>range(len(pdf))\<close>, and appended to \<open>images\<close>.
\<close>

fun render_pages ::
  "('z, 'p) env \<Rightarrow> 'p list \<Rightarrow> 'z \<Rightarrow> 'z \<Rightarrow> nat list \<Rightarrow> string + image list" where
  "render_pages env pdf zoom_x zoom_y [] = Inr []"
| "render_pages env pdf zoom_x zoom_y (page_num # page_nums) =
     (case get_pixmap env (pdf ! page_num) zoom_x zoom_y of
        Inl e \<Rightarrow> Inl e
      | Inr img \<Rightarrow>
          (case render_pages env pdf zoom_x zoom_y page_nums of
             Inl e \<Rightarrow> Inl e
           | Inr images \<Rightarrow> Inr (img # images)))"

text \<open>Writing a file: the bytes replace what the path held.\<close>

definition write_file :: "path \<Rightarrow> string \<Rightarrow> world \<Rightarrow> world" where
  "write_file p bytes w = w\<lparr>fs := (fs w)(p \<mapsto> File bytes)\<rparr>"

text \<open>
  Lines 96 to 140, from opening the PDF to the returned paths. A save that Pillow's
  encoder refuses is the one failure of a write that is modelled, and it leaves the files
  as they were; Pillow has opened the target by then, so a file that was there before
  is in fact cut short. No property below speaks of the files after such a failure.
\<close>

definition pdf_to_base64image ::
  "('z, 'p) env \<Rightarrow> world \<Rightarrow> path \<times> path \<times> path \<Rightarrow> 'z \<Rightarrow> 'z
     \<Rightarrow> world \<times> (error + path \<times> path \<times> path)" where
  "pdf_to_base64image env w paths zoom_x zoom_y =
     (case paths of (pdf_path, image_path, base64_txt_path) \<Rightarrow>
        (let w1 = emit (FitzOpen pdf_path) (emit (Print (MsgRendering pdf_path)) w)
         in case fitz_open env (fs w1) pdf_path of
              Inl e \<Rightarrow> (w1, Inl (Uncaught e))
            | Inr pdf \<Rightarrow>
              (case render_pages env pdf zoom_x zoom_y [0..<length pdf] of
                 Inl e \<Rightarrow> (w1, Inl (Uncaught e))
               | Inr images \<Rightarrow>
                   if images = [] then (w1, Inl (ValueError no_pages_msg))
                   else
                     (let concatenated = concatenate images
                      in case jpeg_encode env concatenated 95 of
                           Inl e \<Rightarrow> (emit (SaveJpeg image_path 95) w1, Inl (Uncaught e))
                         | Inr jpeg \<Rightarrow>
                           (let w2 = emit (Print (MsgImageSaved image_path))
                                       (write_file image_path jpeg
                                          (emit (SaveJpeg image_path 95) w1))
                            in case jpeg_encode env concatenated 95 of
                                 Inl e \<Rightarrow> (w2, Inl (Uncaught e))
                               | Inr buffered \<Rightarrow>
                                 (let base64_str = b64encode buffered;
                                      data_url = ''data:image/jpeg;base64,'' @ base64_str;
                                      w3 = emit (Print (MsgBase64Saved base64_txt_path))
                                             (write_file base64_txt_path data_url
                                                (emit (WriteText base64_txt_path) w2))
                                  in (w3, Inr (pdf_path, image_path, base64_txt_path))))))))"

text \<open>The whole function.\<close>

definition word_to_base64image ::
  "('z, 'p) env \<Rightarrow> world \<Rightarrow> path \<Rightarrow> 'z \<Rightarrow> 'z \<Rightarrow> world \<times> (error + path \<times> path \<times> path)" where
  "word_to_base64image env w word_path zoom_x zoom_y =
     (case word_to_pdf env w word_path of
        (w1, Inl e) \<Rightarrow> (w1, Inl e)
      | (w1, Inr paths) \<Rightarrow> pdf_to_base64image env w1 paths zoom_x zoom_y)"

text \<open>What one call appends to the log.\<close>

definition events_of :: "('z, 'p) env \<Rightarrow> world \<Rightarrow> path \<Rightarrow> 'z \<Rightarrow> 'z \<Rightarrow> event list" where
  "events_of env w word_path zoom_x zoom_y =
     drop (length (trace w)) (trace (fst (word_to_base64image env w word_path zoom_x zoom_y)))"

subsection \<open>Names for what the function computes on the way\<close>

text \<open>The calls that start or drive a converter.\<close>

fun is_backend_event :: "event \<Rightarrow> bool" where
  "is_backend_event (SubprocessRun argv t) = True"
| "is_backend_event ImportWin32com = True"
| "is_backend_event (WordExport src dst fmt) = True"
| "is_backend_event _ = False"

text \<open>Lines 31 to 42: the names derived from the source path.\<close>

definition name_without_ext_of :: "('z, 'p) env \<Rightarrow> path \<Rightarrow> path" where
  "name_without_ext_of env word_path =
     fst (splitext (os_path env) (basename (os_path env) word_path))"

definition output_folder_of :: "('z, 'p) env \<Rightarrow> path \<Rightarrow> path" where
  "output_folder_of env word_path =
     join (os_path env) (dirname (os_path env) word_path) (name_without_ext_of env word_path)"

definition pdf_path_of :: "('z, 'p) env \<Rightarrow> path \<Rightarrow> path" where
  "pdf_path_of env word_path =
     join (os_path env) (output_folder_of env word_path)
       (name_without_ext_of env word_path @ ''.pdf'')"

definition output_paths :: "('z, 'p) env \<Rightarrow> path \<Rightarrow> path \<times> path \<times> path" where
  "output_paths env word_path =
     (pdf_path_of env word_path,
      join (os_path env) (output_folder_of env word_path) ''img.jpg'',
      join (os_path env) (output_folder_of env word_path) ''base64.txt'')"

text \<open>
  The converter calls of one run, in their order: none before the source is found and
  its folder made; then LibreOffice; then, if LibreOffice left nothing converted without
  raising and the host is Windows, the import of \<open>win32com\<close> and, if that succeeds, the
  session with Word.
\<close>

definition backend_events :: "('z, 'p) env \<Rightarrow> world \<Rightarrow> path \<Rightarrow> event list" where
  "backend_events env w word_path =
     (let output_folder = output_folder_of env word_path;
          pdf_path = pdf_path_of env word_path;
          argv = libreoffice_argv output_folder word_path;
          run = subprocess_run env (fs (fst (makedirs output_folder w))) argv 120
      in if fs w word_path = None \<or> (\<exists>b. fs w output_folder = Some (File b)) then []
         else SubprocessRun argv 120 #
           (if (fst run = Completed \<and> snd run pdf_path \<noteq> None) \<or>
               (\<exists>e. fst run = ProcError e) \<or> os_name env \<noteq> ''nt''
            then []
            else ImportWin32com #
              (if win32com_importable env
               then [WordExport (abspath env word_path) (abspath env pdf_path) 17]
               else [])))"

text \<open>The console lines, as opposed to the calls that act on the outside.\<close>

fun is_print :: "event \<Rightarrow> bool" where
  "is_print (Print m) = True"
| "is_print _ = False"

text \<open>
  The same host, except that LibreOffice, doing to the files what it does, ends with the
  given failure.
\<close>

definition as_if_failed :: "('z, 'p) env \<Rightarrow> proc_result \<Rightarrow> ('z, 'p) env" where
  "as_if_failed env failure =
     env\<lparr>subprocess_run :=
           (\<lambda>files argv t. (failure, snd (subprocess_run env files argv t)))\<rparr>"

text \<open>\<open>s.startswith(prefix)\<close> and \<open>sub in s\<close> on strings.\<close>

fun starts_with :: "string \<Rightarrow> string \<Rightarrow> bool" where
  "starts_with s [] = True"
| "starts_with [] (c # cs) = False"
| "starts_with (x # xs) (c # cs) = (x = c \<and> starts_with xs cs)"

fun contains :: "string \<Rightarrow> string \<Rightarrow> bool" where
  "contains [] sub = (sub = [])"
| "contains (x # xs) sub = (starts_with (x # xs) sub \<or> contains xs sub)"

subsection \<open>Concrete hosts\<close>

text \<open>
  A POSIX host on which LibreOffice writes the PDF, whose three pages measure 50 by 25,
  40 by 30 and 60 by 20 points; the rendering multiplies a page's size by the zoom
  factors and paints the page in a colour of its own. The properties below are
  evaluated on it and on variants of it.
\<close>

definition demo_pdf :: "(nat \<times> nat) list" where
  "demo_pdf = [(50, 25), (40, 30), (60, 20)]"

definition demo_pixmap :: "nat \<times> nat \<Rightarrow> nat \<Rightarrow> nat \<Rightarrow> string + image" where
  "demo_pixmap page zoom_x zoom_y =
     Inr \<lparr>width = zoom_x * fst page, height = zoom_y * snd page,
          pixel = (\<lambda>x y. (fst page, snd page, 0))\<rparr>"

definition demo_env :: "(nat, nat \<times> nat) env" where
  "demo_env =
     \<lparr>os_name = ''posix'', os_path = posixpath, abspath = (\<lambda>p. ''/home/user/'' @ p),
      subprocess_run =
        (\<lambda>files argv t. (Completed, files(''documents/demo/demo.pdf'' \<mapsto> File ''%PDF''))),
      win32com_importable = False,
      word_session = (\<lambda>files src dst fmt. (Some ''Word is not installed'', files)),
      fitz_open = (\<lambda>files p. Inr demo_pdf),
      get_pixmap = demo_pixmap,
      jpeg_encode = (\<lambda>img quality. Inr ''JFIF'')\<rparr>"

definition demo_world :: world where
  "demo_world = \<lparr>fs = [''documents/demo.docx'' \<mapsto> File ''PK''], trace = []\<rparr>"

definition empty_world :: world where
  "empty_world = \<lparr>fs = Map.empty, trace = []\<rparr>"

text \<open>The three pages at zoom 2: 100 by 50, 80 by 60 and 120 by 40 pixels.\<close>

definition demo_images :: "image list" where
  "demo_images =
     [\<lparr>width = 100, height = 50, pixel = (\<lambda>x y. (50, 25, 0))\<rparr>,
      \<lparr>width = 80, height = 60, pixel = (\<lambda>x y. (40, 30, 0))\<rparr>,
      \<lparr>width = 120, height = 40, pixel = (\<lambda>x y. (60, 20, 0))\<rparr>]"

text \<open>The world after the conversion, and after the whole call.\<close>

definition demo_converted :: world where
  "demo_converted =
     \<lparr>fs = [''documents/demo.docx'' \<mapsto> File ''PK'',
             ''documents/demo'' \<mapsto> Dir,
             ''documents/demo/demo.pdf'' \<mapsto> File ''%PDF''],
      trace = [Makedirs ''documents/demo'',
               Print (MsgConverting ''documents/demo.docx'' ''documents/demo/demo.pdf''),
               SubprocessRun [''libreoffice'', ''--headless'', ''--convert-to'', ''pdf'',
                 ''--outdir'', ''documents/demo'', ''documents/demo.docx''] 120,
               Print MsgLibreOfficeDone]\<rparr>"

definition demo_done :: world where
  "demo_done =
     \<lparr>fs = [''documents/demo.docx'' \<mapsto> File ''PK'',
             ''documents/demo'' \<mapsto> Dir,
             ''documents/demo/demo.pdf'' \<mapsto> File ''%PDF'',
             ''documents/demo/img.jpg'' \<mapsto> File ''JFIF'',
             ''documents/demo/base64.txt'' \<mapsto> File ''data:image/jpeg;base64,SkZJRg==''],
      trace = trace demo_converted @
              [Print (MsgRendering ''documents/demo/demo.pdf''),
               FitzOpen ''documents/demo/demo.pdf'',
               SaveJpeg ''documents/demo/img.jpg'' 95,
               Print (MsgImageSaved ''documents/demo/img.jpg''),
               WriteText ''documents/demo/base64.txt'',
               Print (MsgBase64Saved ''documents/demo/base64.txt'')]\<rparr>"

text \<open>Variants of the host: a PDF without pages, and LibreOffice ending in other ways.\<close>

definition empty_pdf_env :: "(nat, nat \<times> nat) env" where
  "empty_pdf_env = demo_env\<lparr>fitz_open := (\<lambda>files p. Inr [])\<rparr>"

definition missing_env :: "(nat, nat \<times> nat) env" where
  "missing_env = demo_env\<lparr>subprocess_run := (\<lambda>files argv t. (ExecNotFound, files))\<rparr>"

definition silent_env :: "(nat, nat \<times> nat) env" where
  "silent_env = demo_env\<lparr>subprocess_run := (\<lambda>files argv t. (Completed, files))\<rparr>"

text \<open>
  A Windows host. \<open>ntpath_relative\<close> is \<open>ntpath\<close> on the paths that have no drive and
  no leading separator, for which \<open>ntpath.splitroot\<close> returns an empty drive and an
  empty root; the paths of the example are of that kind. \<open>abspath\<close> puts the working
  directory before such a path. LibreOffice fails on this host and Word, in
  \<open>nt_failing_env\<close>, fails as well.
\<close>

definition backslash :: string where
  "backslash = [CHR 0x5C]"

definition is_sep :: "char \<Rightarrow> bool" where
  "is_sep c = (c = CHR ''/'' \<or> c = CHR 0x5C)"

definition nt_dirname :: "path \<Rightarrow> path" where
  "nt_dirname p =
     (let tail = rev (takeWhile (\<lambda>c. \<not> is_sep c) (rev p));
          head = take (length p - length tail) p
      in rev (dropWhile is_sep (rev head)))"

definition nt_basename :: "path \<Rightarrow> path" where
  "nt_basename p = rev (takeWhile (\<lambda>c. \<not> is_sep c) (rev p))"

definition nt_splitext :: "path \<Rightarrow> path \<times> path" where
  "nt_splitext p =
     (let sepIndex = max (rfind p (CHR 0x5C)) (rfind p (CHR ''/''));
          dotIndex = rfind p (CHR ''.'')
      in if dotIndex > sepIndex \<and>
            list_ex (\<lambda>c. c \<noteq> CHR ''.'')
              (take (nat (dotIndex - (sepIndex + 1))) (drop (nat (sepIndex + 1)) p))
         then (take (nat dotIndex) p, drop (nat dotIndex) p)
         else (p, []))"

definition nt_join :: "path \<Rightarrow> path \<Rightarrow> path" where
  "nt_join a b = (if a \<noteq> [] \<and> \<not> is_sep (last a) then a @ backslash @ b else a @ b)"

definition ntpath_relative :: path_module where
  "ntpath_relative =
     \<lparr>dirname = nt_dirname, basename = nt_basename, splitext = nt_splitext, join = nt_join\<rparr>"

definition nt_word_path :: path where
  "nt_word_path = ''documents'' @ backslash @ ''demo.docx''"

definition nt_world :: world where
  "nt_world = \<lparr>fs = [nt_word_path \<mapsto> File ''PK''], trace = []\<rparr>"

definition nt_env :: "(nat, nat \<times> nat) env" where
  "nt_env =
     \<lparr>os_name = ''nt'', os_path = ntpath_relative,
      abspath = (\<lambda>p. ''C:'' @ backslash @ ''work'' @ backslash @ p),
      subprocess_run =
        (\<lambda>files argv t. (CalledProcessError ''Error: source file could not be loaded'', files)),
      win32com_importable = True,
      word_session = (\<lambda>files src dst fmt. (None, files(dst \<mapsto> File ''%PDF''))),
      fitz_open = (\<lambda>files p. Inr demo_pdf),
      get_pixmap = demo_pixmap,
      jpeg_encode = (\<lambda>img quality. Inr ''JFIF'')\<rparr>"

definition nt_failing_env :: "(nat, nat \<times> nat) env" where
  "nt_failing_env =
     nt_env\<lparr>word_session :=
              (\<lambda>files src dst fmt. (Some ''Word could not open the document'', files))\<rparr>"


definition demo_made :: world where
  "demo_made =
     \<lparr>fs = [''documents/demo.docx'' \<mapsto> File ''PK'', ''documents/demo'' \<mapsto> Dir],
      trace = [Makedirs ''documents/demo'']\<rparr>"

definition nt_made :: world where
  "nt_made =
     \<lparr>fs = [nt_word_path \<mapsto> File ''PK'', ''documents'' @ backslash @ ''demo'' \<mapsto> Dir],
      trace = [Makedirs (''documents'' @ backslash @ ''demo'')]\<rparr>"

section \<open>Properties\<close>

subsection \<open>The stages, one by one\<close>

lemma libreoffice_method_eq:
  "libreoffice_method env w word_path output_folder name_without_ext
       (join (os_path env) output_folder (name_without_ext @ ''.pdf'')) =
     (let argv = libreoffice_argv output_folder word_path;
          pdf_path = join (os_path env) output_folder (name_without_ext @ ''.pdf'');
          run = subprocess_run env (fs w) argv 120;
          start = trace w @ [SubprocessRun argv 120]
      in case fst run of
           Completed \<Rightarrow>
             if snd run pdf_path \<noteq> None
             then (\<lparr>fs = snd run, trace = start @ [Print MsgLibreOfficeDone]\<rparr>, Inr True)
             else (\<lparr>fs = snd run, trace = start\<rparr>, Inr False)
         | ExecNotFound \<Rightarrow>
             (\<lparr>fs = snd run, trace = start @ [Print MsgLibreOfficeMissing]\<rparr>, Inr False)
         | TimeoutExpired \<Rightarrow>
             (\<lparr>fs = snd run, trace = start @ [Print MsgLibreOfficeTimeout]\<rparr>, Inr False)
         | CalledProcessError stderr \<Rightarrow>
             (\<lparr>fs = snd run, trace = start @ [Print (MsgLibreOfficeFailed stderr)]\<rparr>, Inr False)
         | ProcError e \<Rightarrow> (\<lparr>fs = snd run, trace = start\<rparr>, Inl (Uncaught e)))"
  by (simp add: libreoffice_method_def emit_def Let_def
      split: prod.splits proc_result.splits)

lemma word_method_eq:
  "word_method env w converted word_path pdf_path =
     (if converted \<or> os_name env \<noteq> ''nt'' then (w, converted)
      else if \<not> win32com_importable env
      then (\<lparr>fs = fs w, trace = trace w @ [ImportWin32com, Print MsgNoPywin32]\<rparr>, False)
      else (let src = abspath env word_path; dst = abspath env pdf_path;
                session = word_session env (fs w) src dst 17;
                start = trace w @ [ImportWin32com, WordExport src dst 17]
            in case fst session of
                 None \<Rightarrow> (\<lparr>fs = snd session, trace = start @ [Print MsgWordDone]\<rparr>, True)
               | Some e \<Rightarrow>
                   (\<lparr>fs = snd session, trace = start @ [Print (MsgWordFailed e)]\<rparr>, False)))"
  by (simp add: word_method_def emit_def Let_def split: prod.splits option.splits)

lemma pdf_path_of_join:
  "join (os_path env) (output_folder_of env word_path)
     (name_without_ext_of env word_path @ ''.pdf'') = pdf_path_of env word_path"
  by (simp add: pdf_path_of_def)

lemma libreoffice_method_at:
  "libreoffice_method env w word_path (output_folder_of env word_path)
       (name_without_ext_of env word_path) (pdf_path_of env word_path) =
     (let argv = libreoffice_argv (output_folder_of env word_path) word_path;
          pdf_path = pdf_path_of env word_path;
          run = subprocess_run env (fs w) argv 120;
          start = trace w @ [SubprocessRun argv 120]
      in case fst run of
           Completed \<Rightarrow>
             if snd run pdf_path \<noteq> None
             then (\<lparr>fs = snd run, trace = start @ [Print MsgLibreOfficeDone]\<rparr>, Inr True)
             else (\<lparr>fs = snd run, trace = start\<rparr>, Inr False)
         | ExecNotFound \<Rightarrow>
             (\<lparr>fs = snd run, trace = start @ [Print MsgLibreOfficeMissing]\<rparr>, Inr False)
         | TimeoutExpired \<Rightarrow>
             (\<lparr>fs = snd run, trace = start @ [Print MsgLibreOfficeTimeout]\<rparr>, Inr False)
         | CalledProcessError stderr \<Rightarrow>
             (\<lparr>fs = snd run, trace = start @ [Print (MsgLibreOfficeFailed stderr)]\<rparr>, Inr False)
         | ProcError e \<Rightarrow> (\<lparr>fs = snd run, trace = start\<rparr>, Inl (Uncaught e)))"
  using libreoffice_method_eq [of env w word_path "output_folder_of env word_path"
      "name_without_ext_of env word_path"]
  by (simp add: pdf_path_of_join)

lemma makedirs_Inr:
  "makedirs p w = (w1, Inr u) \<Longrightarrow>
     trace w1 = trace w @ [Makedirs p] \<and> (\<forall>b. fs w p \<noteq> Some (File b)) \<and>
     fs w1 = (if fs w p = None then (fs w)(p \<mapsto> Dir) else fs w)"
  by (auto simp: makedirs_def emit_def Let_def split: option.splits node.splits)

lemma makedirs_Inl:
  "makedirs p w = (w1, Inl e) \<Longrightarrow>
     w1 = w\<lparr>trace := trace w @ [Makedirs p]\<rparr> \<and> e = FileExistsError p \<and>
     (\<exists>b. fs w p = Some (File b))"
  by (auto simp: makedirs_def emit_def Let_def split: option.splits node.splits)

lemma word_to_pdf_exists:
  "fs w word_path \<noteq> None \<Longrightarrow>
   word_to_pdf env w word_path =
     (case makedirs (output_folder_of env word_path) w of
        (w1, Inl e) \<Rightarrow> (w1, Inl e)
      | (w1, Inr u) \<Rightarrow>
          (case libreoffice_method env
                  (emit (Print (MsgConverting word_path (pdf_path_of env word_path))) w1)
                  word_path (output_folder_of env word_path) (name_without_ext_of env word_path)
                  (pdf_path_of env word_path) of
             (w3, Inl e) \<Rightarrow> (w3, Inl e)
           | (w3, Inr converted) \<Rightarrow>
               (case word_method env w3 converted word_path (pdf_path_of env word_path) of
                  (w4, converted') \<Rightarrow>
                    if \<not> converted' then (w4, Inl (RuntimeError all_failed_msg))
                    else (w4, Inr (output_paths env word_path)))))"
  unfolding word_to_pdf_def output_folder_of_def pdf_path_of_def name_without_ext_of_def
    output_paths_def Let_def
  by (simp only: if_False)

lemma word_to_pdf_events:
  assumes "fs w word_path \<noteq> None"
    and "makedirs (output_folder_of env word_path) w = (w1, Inr u)"
    and "subprocess_run env (fs w1)
           (libreoffice_argv (output_folder_of env word_path) word_path) 120 = (r, files)"
  shows "\<exists>evs. trace (fst (word_to_pdf env w word_path)) = trace w @ evs \<and>
           (\<forall>a b. OsReplace a b \<notin> set evs) \<and>
           filter is_backend_event evs =
             SubprocessRun (libreoffice_argv (output_folder_of env word_path) word_path) 120 #
               (if (r = Completed \<and> files (pdf_path_of env word_path) \<noteq> None) \<or>
                   (\<exists>e. r = ProcError e) \<or> os_name env \<noteq> ''nt''
                then []
                else ImportWin32com #
                  (if win32com_importable env
                   then [WordExport (abspath env word_path)
                           (abspath env (pdf_path_of env word_path)) 17]
                   else []))"
proof -
  have t1: "trace w1 = trace w @ [Makedirs (output_folder_of env word_path)]"
    using makedirs_Inr [OF assms(2)] by simp
  have pdf: "pdf_path_of env word_path =
      join (os_path env) (output_folder_of env word_path)
        (name_without_ext_of env word_path @ ''.pdf'')"
    by (simp add: pdf_path_of_def)
  show ?thesis
    using assms(3) t1
    by (cases r)
      (simp_all add: word_to_pdf_exists [OF assms(1)] assms(2) pdf [symmetric]
         libreoffice_method_eq [of env _ word_path "output_folder_of env word_path"
            "name_without_ext_of env word_path", folded pdf]
         word_method_eq emit_def Let_def split: option.splits)
qed

lemma word_to_pdf_trace:
  "\<exists>evs. trace (fst (word_to_pdf env w word_path)) = trace w @ evs \<and>
     (\<forall>a b. OsReplace a b \<notin> set evs) \<and>
     filter is_backend_event evs = backend_events env w word_path"
proof (cases "fs w word_path = None")
  case True
  then show ?thesis
    by (simp add: word_to_pdf_def backend_events_def)
next
  case False
  obtain w1 r1 where m: "makedirs (output_folder_of env word_path) w = (w1, r1)"
    by (cases "makedirs (output_folder_of env word_path) w")
  show ?thesis
  proof (cases r1)
    case (Inl e)
    with m makedirs_Inl [of "output_folder_of env word_path" w w1 e] False show ?thesis
      by (auto simp: word_to_pdf_exists backend_events_def)
  next
    case (Inr u)
    obtain r files where run: "subprocess_run env (fs w1)
        (libreoffice_argv (output_folder_of env word_path) word_path) 120 = (r, files)"
      by (cases "subprocess_run env (fs w1)
        (libreoffice_argv (output_folder_of env word_path) word_path) 120")
    from m Inr have m': "makedirs (output_folder_of env word_path) w = (w1, Inr u)"
      by simp
    have "backend_events env w word_path =
        SubprocessRun (libreoffice_argv (output_folder_of env word_path) word_path) 120 #
               (if (r = Completed \<and> files (pdf_path_of env word_path) \<noteq> None) \<or>
                   (\<exists>e. r = ProcError e) \<or> os_name env \<noteq> ''nt''
                then []
                else ImportWin32com #
                  (if win32com_importable env
                   then [WordExport (abspath env word_path)
                           (abspath env (pdf_path_of env word_path)) 17]
                   else []))"
      using False makedirs_Inr [OF m'] run m'
      by (simp add: backend_events_def Let_def)
    with word_to_pdf_events [OF False m' run] show ?thesis
      by simp
  qed
qed

lemma pdf_to_base64image_trace:
  "\<exists>evs. trace (fst (pdf_to_base64image env w paths zoom_x zoom_y)) = trace w @ evs \<and>
     (\<forall>a b. OsReplace a b \<notin> set evs) \<and> filter is_backend_event evs = []"
  by (auto simp: pdf_to_base64image_def emit_def write_file_def Let_def
      split: prod.splits sum.splits)

lemma events_of_cases:
  "events_of env w word_path zoom_x zoom_y =
     (case word_to_pdf env w word_path of
        (w1, Inl e) \<Rightarrow> drop (length (trace w)) (trace w1)
      | (w1, Inr paths) \<Rightarrow>
          drop (length (trace w))
            (trace (fst (pdf_to_base64image env w1 paths zoom_x zoom_y))))"
  by (simp add: events_of_def word_to_base64image_def split: prod.splits sum.splits)

lemma events_of_trace:
  "(\<forall>a b. OsReplace a b \<notin> set (events_of env w word_path zoom_x zoom_y)) \<and>
   filter is_backend_event (events_of env w word_path zoom_x zoom_y) =
     backend_events env w word_path"
proof -
  obtain w1 r1 where p: "word_to_pdf env w word_path = (w1, r1)"
    by (cases "word_to_pdf env w word_path")
  obtain evs where e1: "trace w1 = trace w @ evs" "\<forall>a b. OsReplace a b \<notin> set evs"
      "filter is_backend_event evs = backend_events env w word_path"
    using word_to_pdf_trace [of env w word_path] p by auto
  show ?thesis
  proof (cases r1)
    case (Inl e)
    with p e1 show ?thesis by (simp add: events_of_cases)
  next
    case (Inr paths)
    obtain evs' where e2:
      "trace (fst (pdf_to_base64image env w1 paths zoom_x zoom_y)) = trace w1 @ evs'"
      "\<forall>a b. OsReplace a b \<notin> set evs'" "filter is_backend_event evs' = []"
      using pdf_to_base64image_trace [of env w1 paths zoom_x zoom_y] by auto
    with p e1 Inr show ?thesis by (simp add: events_of_cases)
  qed
qed

lemma word_to_pdf_paths:
  assumes "word_to_pdf env w word_path = (w1, Inr paths)"
  shows "paths = output_paths env word_path"
proof (cases "fs w word_path = None")
  case True
  with assms show ?thesis by (simp add: word_to_pdf_def)
next
  case False
  from assms show ?thesis
    unfolding word_to_pdf_exists [OF False]
    by (auto split: prod.splits sum.splits if_splits)
qed

lemma as_if_failed_fields [simp]:
  "os_name (as_if_failed env failure) = os_name env"
  "os_path (as_if_failed env failure) = os_path env"
  "abspath (as_if_failed env failure) = abspath env"
  "win32com_importable (as_if_failed env failure) = win32com_importable env"
  "word_session (as_if_failed env failure) = word_session env"
  "fitz_open (as_if_failed env failure) = fitz_open env"
  "get_pixmap (as_if_failed env failure) = get_pixmap env"
  "jpeg_encode (as_if_failed env failure) = jpeg_encode env"
  "subprocess_run (as_if_failed env failure) files argv t =
     (failure, snd (subprocess_run env files argv t))"
  by (simp_all add: as_if_failed_def)

lemma as_if_failed_paths [simp]:
  "name_without_ext_of (as_if_failed env failure) = name_without_ext_of env"
  "output_folder_of (as_if_failed env failure) = output_folder_of env"
  "pdf_path_of (as_if_failed env failure) = pdf_path_of env"
  "output_paths (as_if_failed env failure) = output_paths env"
  by (simp_all add: fun_eq_iff name_without_ext_of_def output_folder_of_def pdf_path_of_def
      output_paths_def)

lemma render_pages_cong:
  "get_pixmap env2 = get_pixmap env \<Longrightarrow>
   render_pages env2 pdf zoom_x zoom_y page_nums = render_pages env pdf zoom_x zoom_y page_nums"
  by (induction page_nums) (simp_all split: sum.splits)

lemma pdf_to_base64image_frame:
  assumes "fs wa = fs wb" and "fitz_open env2 = fitz_open env"
    and "get_pixmap env2 = get_pixmap env" and "jpeg_encode env2 = jpeg_encode env"
  shows "\<exists>evs. trace (fst (pdf_to_base64image env wa paths zoom_x zoom_y)) = trace wa @ evs \<and>
     trace (fst (pdf_to_base64image env2 wb paths zoom_x zoom_y)) = trace wb @ evs \<and>
     fs (fst (pdf_to_base64image env wa paths zoom_x zoom_y)) =
       fs (fst (pdf_to_base64image env2 wb paths zoom_x zoom_y)) \<and>
     snd (pdf_to_base64image env wa paths zoom_x zoom_y) =
       snd (pdf_to_base64image env2 wb paths zoom_x zoom_y)"
proof -
  have r: "render_pages env2 pdf zoom_x zoom_y ns = render_pages env pdf zoom_x zoom_y ns"
    for pdf ns
    using assms(3) by (rule render_pages_cong)
  obtain pdf_path image_path base64_txt_path
    where p: "paths = (pdf_path, image_path, base64_txt_path)"
    by (cases paths)
  show ?thesis
    unfolding p pdf_to_base64image_def Let_def
    by (simp add: assms r emit_def write_file_def split: sum.splits)
qed

lemma word_to_pdf_as_if_failed:
  assumes "fs w word_path \<noteq> None"
    and "makedirs (output_folder_of env word_path) w = (w1, Inr u)"
    and "subprocess_run env (fs w1)
           (libreoffice_argv (output_folder_of env word_path) word_path) 120 =
             (Completed, files)"
    and "files (pdf_path_of env word_path) = None"
    and "failure = ExecNotFound \<or> failure = TimeoutExpired \<or>
         (\<exists>stderr. failure = CalledProcessError stderr)"
  shows "\<exists>evs evs2.
     trace (fst (word_to_pdf env w word_path)) = trace w @ evs \<and>
     trace (fst (word_to_pdf (as_if_failed env failure) w word_path)) = trace w @ evs2 \<and>
     filter (\<lambda>e. \<not> is_print e) evs = filter (\<lambda>e. \<not> is_print e) evs2 \<and>
     fs (fst (word_to_pdf env w word_path)) =
       fs (fst (word_to_pdf (as_if_failed env failure) w word_path)) \<and>
     snd (word_to_pdf env w word_path) =
       snd (word_to_pdf (as_if_failed env failure) w word_path)"
proof -
  have t1: "trace w1 = trace w @ [Makedirs (output_folder_of env word_path)]"
    using makedirs_Inr [OF assms(2)] by simp
  show ?thesis
    using assms(3,4,5) t1
    by (auto simp: word_to_pdf_exists [OF assms(1)] assms(2)
         libreoffice_method_at [of env]
         libreoffice_method_at [of "as_if_failed env failure", simplified]
         word_method_eq emit_def Let_def
         split: option.splits)
qed

subsection \<open>Stacking and rendering\<close>

lemma py_max_Max: "xs \<noteq> [] \<Longrightarrow> py_max xs = Max (set xs)"
  using Max.set_eq_fold [of "hd xs" "tl xs"] by (cases xs) simp_all

lemma paste_size [simp]:
  "width (paste canvas img box) = width canvas" "height (paste canvas img box) = height canvas"
  by (simp_all add: paste_def)

lemma paste_loop_foldl:
  "fst (paste_loop canvas max_width y images) =
     foldl (\<lambda>c i. paste c (images ! i)
              ((max_width - int (width (images ! i))) div 2,
               y + int (sum_list (map height (take i images)))))
       canvas [0..<length images]"
proof (induction images arbitrary: canvas y)
  case Nil
  then show ?case by simp
next
  case (Cons img images)
  have "[0..<length (img # images)] = 0 # map Suc [0..<length images]"
    by (simp add: upt_conv_Cons map_Suc_upt del: upt_Suc)
  then show ?case
    by (simp add: Cons.IH foldl_map Let_def add.assoc del: upt_Suc)
qed

lemma paste_loop_above:
  "int b < y \<Longrightarrow> pixel (fst (paste_loop canvas max_width y images)) a b = pixel canvas a b"
proof (induction images arbitrary: canvas y)
  case Nil
  then show ?case by simp
next
  case (Cons img images)
  from Cons.prems have "int b < y + int (height img)" by simp
  from Cons.IH [OF this] Cons.prems show ?case
    by (simp add: Let_def paste_def)
qed

lemma paste_loop_pixel:
  "i < length images \<Longrightarrow> a < width (images ! i) \<Longrightarrow> b < height (images ! i) \<Longrightarrow>
   0 \<le> y \<Longrightarrow> int (width (images ! i)) \<le> max_width \<Longrightarrow>
   pixel (fst (paste_loop canvas max_width y images))
     (nat ((max_width - int (width (images ! i))) div 2) + a)
     (nat y + sum_list (map height (take i images)) + b) = pixel (images ! i) a b"
proof (induction images arbitrary: canvas y i)
  case Nil
  then show ?case by simp
next
  case (Cons img images)
  show ?case
  proof (cases i)
    case 0
    with Cons.prems have "int (nat y + b) < y + int (height img)" by simp
    from paste_loop_above [OF this] 0 Cons.prems show ?thesis
      by (simp add: Let_def paste_def)
  next
    case (Suc j)
    with Cons.prems have "j < length images" "a < width (images ! j)"
      "b < height (images ! j)" "0 \<le> y + int (height img)"
      "int (width (images ! j)) \<le> max_width" by simp_all
    from Cons.IH [OF this] Suc Cons.prems show ?thesis
      by (simp add: Let_def nat_add_distrib add.assoc)
  qed
qed

lemma concatenate_size:
  assumes "images \<noteq> []"
  shows "width (concatenate images) = Max (set (map width images))"
    and "height (concatenate images) = sum_list (map height images)"
proof -
  have size: "width (fst (paste_loop c mw y imgs)) = width c \<and>
      height (fst (paste_loop c mw y imgs)) = height c" for c mw y imgs
    by (induction imgs arbitrary: c y) (simp_all add: Let_def)
  from assms have m: "py_max (map width images) = Max (set (map width images))"
    by (simp add: py_max_Max)
  show "width (concatenate images) = Max (set (map width images))"
    unfolding concatenate_def Let_def m by (simp add: size Image_new_def)
  show "height (concatenate images) = sum_list (map height images)"
    unfolding concatenate_def Let_def m by (simp add: size Image_new_def)
qed

lemma sum_list_take_mono:
  fixes f :: "'a \<Rightarrow> nat"
  assumes "m \<le> n"
  shows "sum_list (map f (take m xs)) \<le> sum_list (map f (take n xs))"
proof -
  from assms have "take n xs = take m xs @ take (n - m) (drop m xs)"
    by (metis le_add_diff_inverse take_add)
  then show ?thesis by simp
qed

lemma sum_list_take_le:
  fixes f :: "'a \<Rightarrow> nat"
  shows "sum_list (map f (take n xs)) \<le> sum_list (map f xs)"
proof -
  have "sum_list (map f xs) = sum_list (map f (take n xs @ drop n xs))" by simp
  also have "\<dots> = sum_list (map f (take n xs)) + sum_list (map f (drop n xs))"
    by (simp del: append_take_drop_id)
  finally show ?thesis by simp
qed

lemma render_pages_nth:
  "render_pages env pdf zoom_x zoom_y page_nums = Inr images \<Longrightarrow>
     length images = length page_nums \<and>
     (\<forall>k < length page_nums.
        get_pixmap env (pdf ! (page_nums ! k)) zoom_x zoom_y = Inr (images ! k))"
proof (induction page_nums arbitrary: images)
  case Nil
  then show ?case by simp
next
  case (Cons n ns)
  then show ?case
    by (auto split: sum.splits simp: nth_Cons split: nat.splits)
qed

subsection \<open>The concrete hosts, evaluated\<close>

lemmas posix_defs = posixpath_def posix_dirname_def posix_basename_def posix_splitext_def
  posix_join_def rfind_def rstrip_def

lemmas nt_defs = ntpath_relative_def nt_dirname_def nt_basename_def nt_splitext_def
  nt_join_def rfind_def is_sep_def backslash_def nt_word_path_def

lemmas stage_defs = makedirs_def emit_def libreoffice_method_def libreoffice_argv_def
  word_method_def os_replace_def Let_def

lemmas paths_of_defs = output_paths_def pdf_path_of_def output_folder_of_def
  name_without_ext_of_def

lemma demo_paths:
  "output_folder_of demo_env ''documents/demo.docx'' = ''documents/demo''"
  "name_without_ext_of demo_env ''documents/demo.docx'' = ''demo''"
  "pdf_path_of demo_env ''documents/demo.docx'' = ''documents/demo/demo.pdf''"
  "output_paths demo_env ''documents/demo.docx'' =
     (''documents/demo/demo.pdf'', ''documents/demo/img.jpg'', ''documents/demo/base64.txt'')"
  by (simp_all add: paths_of_defs demo_env_def posix_defs Let_def)

lemma nt_paths:
  "output_folder_of nt_env nt_word_path = ''documents'' @ backslash @ ''demo''"
  "name_without_ext_of nt_env nt_word_path = ''demo''"
  "pdf_path_of nt_env nt_word_path =
     ''documents'' @ backslash @ ''demo'' @ backslash @ ''demo.pdf''"
  by (simp_all add: paths_of_defs nt_env_def nt_defs Let_def)

lemma demo_word_to_pdf:
  "word_to_pdf demo_env demo_world ''documents/demo.docx'' =
     (demo_converted,
      Inr (''documents/demo/demo.pdf'', ''documents/demo/img.jpg'',
           ''documents/demo/base64.txt''))"
  by (simp add: word_to_pdf_def stage_defs demo_env_def posix_defs demo_world_def
      demo_converted_def)

lemma demo_render:
  "render_pages demo_env demo_pdf 2 2 [0..<length demo_pdf] = Inr demo_images"
  by (simp add: demo_pdf_def demo_env_def demo_pixmap_def demo_images_def upt_rec)

lemma demo_images_not_Nil: "demo_images \<noteq> []"
  by (simp add: demo_images_def)

lemma demo_run:
  "word_to_base64image demo_env demo_world ''documents/demo.docx'' 2 2 =
     (demo_done,
      Inr (''documents/demo/demo.pdf'', ''documents/demo/img.jpg'',
           ''documents/demo/base64.txt''))"
proof -
  have f: "fitz_open demo_env files p = Inr demo_pdf" for files p
    by (simp add: demo_env_def)
  have j: "jpeg_encode demo_env img q = Inr ''JFIF''" for img q
    by (simp add: demo_env_def)
  show ?thesis
    by (simp add: word_to_base64image_def demo_word_to_pdf pdf_to_base64image_def f
        demo_render j demo_images_not_Nil
        emit_def write_file_def Let_def demo_converted_def demo_done_def
        b64_char_def b64_alphabet_def)
qed

lemma empty_pdf_word_to_pdf:
  "word_to_pdf empty_pdf_env demo_world ''documents/demo.docx'' =
     (demo_converted,
      Inr (''documents/demo/demo.pdf'', ''documents/demo/img.jpg'',
           ''documents/demo/base64.txt''))"
  by (simp add: word_to_pdf_def stage_defs empty_pdf_env_def demo_env_def posix_defs
      demo_world_def demo_converted_def)

lemma demo_second_run:
  "snd (word_to_base64image demo_env demo_done ''documents/demo.docx'' 3 3) =
     Inr (''documents/demo/demo.pdf'', ''documents/demo/img.jpg'',
          ''documents/demo/base64.txt'')"
proof -
  have f: "fitz_open demo_env files p = Inr demo_pdf" for files p
    by (simp add: demo_env_def)
  have j: "jpeg_encode demo_env img q = Inr ''JFIF''" for img q
    by (simp add: demo_env_def)
  have p: "word_to_pdf demo_env demo_done ''documents/demo.docx'' =
     (fst (word_to_pdf demo_env demo_done ''documents/demo.docx''),
      Inr (''documents/demo/demo.pdf'', ''documents/demo/img.jpg'',
           ''documents/demo/base64.txt''))"
    by (simp add: word_to_pdf_def stage_defs demo_env_def posix_defs demo_done_def
        demo_converted_def)
  have r: "render_pages demo_env demo_pdf 3 3 [0..<length demo_pdf] \<noteq> Inl e" for e
    by (simp add: demo_pdf_def demo_env_def demo_pixmap_def upt_rec)
  have n: "render_pages demo_env demo_pdf 3 3 [0..<length demo_pdf] \<noteq> Inr []"
    by (simp add: demo_pdf_def demo_env_def demo_pixmap_def upt_rec)
  show ?thesis
    unfolding word_to_base64image_def
    by (subst p) (use r n in \<open>simp add: pdf_to_base64image_def f j Let_def
          split: sum.splits\<close>)
qed

lemma nt_env_fields:
  "os_name nt_env = ''nt''" "win32com_importable nt_env"
  "abspath nt_env p = ''C:'' @ backslash @ ''work'' @ backslash @ p"
  "subprocess_run nt_env files argv t =
     (CalledProcessError ''Error: source file could not be loaded'', files)"
  "word_session nt_env files src dst fmt = (None, files(dst \<mapsto> File ''%PDF''))"
  by (simp_all add: nt_env_def)

lemma nt_failing_env_fields:
  "os_name nt_failing_env = ''nt''" "win32com_importable nt_failing_env"
  "abspath nt_failing_env p = ''C:'' @ backslash @ ''work'' @ backslash @ p"
  "subprocess_run nt_failing_env files argv t =
     (CalledProcessError ''Error: source file could not be loaded'', files)"
  "word_session nt_failing_env files src dst fmt =
     (Some ''Word could not open the document'', files)"
  by (simp_all add: nt_failing_env_def nt_env_def)

lemma nt_failing_paths:
  "output_folder_of nt_failing_env nt_word_path = ''documents'' @ backslash @ ''demo''"
  "name_without_ext_of nt_failing_env nt_word_path = ''demo''"
  "pdf_path_of nt_failing_env nt_word_path =
     ''documents'' @ backslash @ ''demo'' @ backslash @ ''demo.pdf''"
  by (simp_all add: paths_of_defs nt_failing_env_def nt_env_def nt_defs Let_def)

lemma nt_word_exists: "fs nt_world nt_word_path \<noteq> None"
  by (simp add: nt_world_def)

lemma nt_folder_free: "fs nt_world (''documents'' @ backslash @ ''demo'') = None"
  by (simp add: nt_world_def nt_word_path_def backslash_def)

lemma silent_paths:
  "output_folder_of silent_env ''documents/demo.docx'' = ''documents/demo''"
  "pdf_path_of silent_env ''documents/demo.docx'' = ''documents/demo/demo.pdf''"
  by (simp_all add: paths_of_defs silent_env_def demo_env_def posix_defs Let_def)

subsection \<open>A missing source\<close>

text \<open>
  Claim C3. When the source path does not exist, the function raises
  \<open>FileNotFoundError\<close> at once: the world it leaves is the world it found, so no
  process has been started and no directory or file has been created.
\<close>

theorem missing_source_rejected:
  "fs w word_path = None \<Longrightarrow>
   word_to_base64image env w word_path zoom_x zoom_y =
     (w, Inl (FileNotFoundError (word_not_found_msg @ word_path)))"
  by (simp add: word_to_base64image_def word_to_pdf_def)

theorem missing_source_rejected_witness:
  "fs empty_world ''documents/demo.docx'' = None \<and>
   word_to_base64image demo_env empty_world ''documents/demo.docx'' 2 2 =
     (empty_world, Inl (FileNotFoundError (word_not_found_msg @ ''documents/demo.docx'')))"
  using missing_source_rejected [of empty_world "''documents/demo.docx''" demo_env 2 2]
  by (simp add: empty_world_def)

subsection \<open>The composite image\<close>

text \<open>
  Claim C1. For a non-empty sequence of page images the canvas is as wide as the widest
  page and as high as all pages together; it is created white, (255, 255, 255), and
  then page \<open>i\<close>, for \<open>i\<close> from the first to the last, is pasted at the horizontal offset
  \<open>(max_width - width_i) div 2\<close> (Python's floor division) and at the vertical offset
  that is the sum of the heights of the pages before it.
\<close>

theorem composite_geometry:
  assumes "images \<noteq> []"
  shows "width (concatenate images) = Max (set (map width images)) \<and>
     height (concatenate images) = sum_list (map height images) \<and>
     concatenate images =
       foldl (\<lambda>canvas i. paste canvas (images ! i)
                ((int (Max (set (map width images))) - int (width (images ! i))) div 2,
                 int (sum_list (map height (take i images)))))
         (Image_new (Max (set (map width images)), sum_list (map height images))
            (255, 255, 255))
         [0..<length images]"
proof -
  have m: "py_max (map width images) = Max (set (map width images))"
    using assms by (simp add: py_max_Max)
  have size: "width (fst (paste_loop c mw y imgs)) = width c \<and>
      height (fst (paste_loop c mw y imgs)) = height c" for c mw y imgs
    by (induction imgs arbitrary: c y) (simp_all add: Let_def)
  have dims: "width (concatenate images) = Max (set (map width images)) \<and>
      height (concatenate images) = sum_list (map height images)"
    unfolding concatenate_def Let_def m by (simp add: size Image_new_def)
  have pastes: "concatenate images =
       foldl (\<lambda>canvas i. paste canvas (images ! i)
                ((int (Max (set (map width images))) - int (width (images ! i))) div 2,
                 int (sum_list (map height (take i images)))))
         (Image_new (Max (set (map width images)), sum_list (map height images))
            (255, 255, 255))
         [0..<length images]"
    unfolding concatenate_def Let_def m by (simp add: paste_loop_foldl)
  from dims pastes show ?thesis by simp
qed

theorem composite_geometry_witness:
  "demo_images \<noteq> [] \<and>
   width (concatenate demo_images) = 120 \<and> height (concatenate demo_images) = 150 \<and>
   concatenate demo_images =
     paste (paste (paste (Image_new (120, 150) (255, 255, 255))
       (demo_images ! 0) (10, 0)) (demo_images ! 1) (20, 50)) (demo_images ! 2) (0, 110)"
  using composite_geometry [OF demo_images_not_Nil]
  by (simp add: demo_images_def upt_rec Image_new_def)


text \<open>
  Claim C6. When the pages of an \<open>N\<close>-page document are rendered, there are exactly
  \<open>N\<close> images and image \<open>i\<close> is the rendering of page \<open>i\<close>. Every pixel of image
  \<open>i\<close> has its place inside the composite, within its width and its height, and the
  composite shows it there: no later paste overwrites it. The band of rows of the first
  image starts at row 0, each next band starts where the previous one ends, and every
  row of an earlier page lies above every row of a later page.
\<close>

theorem page_order_preserved:
  assumes "render_pages env pdf zoom_x zoom_y [0..<length pdf] = Inr images"
  shows "length images = length pdf \<and>
     (\<forall>i < length pdf. get_pixmap env (pdf ! i) zoom_x zoom_y = Inr (images ! i)) \<and>
     (\<forall>i < length images. \<forall>a < width (images ! i). \<forall>b < height (images ! i).
        nat ((int (Max (set (map width images))) - int (width (images ! i))) div 2) + a
          < width (concatenate images) \<and>
        sum_list (map height (take i images)) + b < height (concatenate images) \<and>
        pixel (concatenate images)
          (nat ((int (Max (set (map width images))) - int (width (images ! i))) div 2) + a)
          (sum_list (map height (take i images)) + b) = pixel (images ! i) a b) \<and>
     (\<forall>i. Suc i < length images \<longrightarrow>
        sum_list (map height (take (Suc i) images)) =
          sum_list (map height (take i images)) + height (images ! i)) \<and>
     (\<forall>i j. i < j \<and> j < length images \<longrightarrow>
        (\<forall>b < height (images ! i). \<forall>c < height (images ! j).
           sum_list (map height (take i images)) + b
             < sum_list (map height (take j images)) + c))"
proof -
  from render_pages_nth [OF assms]
  have len: "length images = length pdf"
    and nth: "\<forall>i < length pdf. get_pixmap env (pdf ! i) zoom_x zoom_y = Inr (images ! i)"
    by auto
  have band: "sum_list (map height (take i images)) + height (images ! i) =
      sum_list (map height (take (Suc i) images))" if "i < length images" for i
    using that by (simp add: take_Suc_conv_app_nth)
  have pix: "nat ((int (Max (set (map width images))) - int (width (images ! i))) div 2) + a
          < width (concatenate images) \<and>
        sum_list (map height (take i images)) + b < height (concatenate images) \<and>
        pixel (concatenate images)
          (nat ((int (Max (set (map width images))) - int (width (images ! i))) div 2) + a)
          (sum_list (map height (take i images)) + b) = pixel (images ! i) a b"
    if "i < length images" "a < width (images ! i)" "b < height (images ! i)" for i a b
  proof -
    from that have ne: "images \<noteq> []" by auto
    have w: "width (images ! i) \<le> Max (set (map width images))"
      using that by (intro Max_ge) auto
    then have wi: "int (width (images ! i)) \<le> int (Max (set (map width images)))" by simp
    from w that(2)
    have x: "nat ((int (Max (set (map width images))) - int (width (images ! i))) div 2) + a
        < Max (set (map width images))"
      by linarith
    have "sum_list (map height (take (Suc i) images)) \<le> sum_list (map height images)"
      by (rule sum_list_take_le)
    with band [OF that(1)] that(3)
    have y: "sum_list (map height (take i images)) + b < sum_list (map height images)"
      by linarith
    have p: "pixel (concatenate images)
          (nat ((int (Max (set (map width images))) - int (width (images ! i))) div 2) + a)
          (sum_list (map height (take i images)) + b) = pixel (images ! i) a b"
      using paste_loop_pixel [OF that _ wi, of 0]
      unfolding concatenate_def Let_def py_max_Max [of "map width images", simplified, OF ne]
      by simp
    from x y p show ?thesis by (simp add: concatenate_size [OF ne])
  qed
  have step: "sum_list (map height (take (Suc i) images)) =
          sum_list (map height (take i images)) + height (images ! i)"
    if "Suc i < length images" for i
    using that by (simp add: take_Suc_conv_app_nth)
  have order: "sum_list (map height (take i images)) + b
             < sum_list (map height (take j images)) + c"
    if "i < j" "j < length images" "b < height (images ! i)" for i j b c
  proof -
    from that have "i < length images" by simp
    from band [OF this]
    have "sum_list (map height (take i images)) + height (images ! i) =
      sum_list (map height (take (Suc i) images))" .
    moreover from that(1)
    have "sum_list (map height (take (Suc i) images)) \<le> sum_list (map height (take j images))"
      by (intro sum_list_take_mono) simp
    ultimately show ?thesis using that(3) by linarith
  qed
  from len nth pix step order show ?thesis by blast
qed

theorem page_order_preserved_witness:
  "render_pages demo_env demo_pdf 2 2 [0..<length demo_pdf] = Inr demo_images \<and>
   length demo_images = length demo_pdf \<and>
   get_pixmap demo_env (demo_pdf ! 1) 2 2 = Inr (demo_images ! 1) \<and>
   pixel (concatenate demo_images) 10 0 = (50, 25, 0) \<and>
   pixel (concatenate demo_images) 20 50 = (40, 30, 0) \<and>
   pixel (concatenate demo_images) 0 110 = (60, 20, 0) \<and>
   20 + 79 < width (concatenate demo_images) \<and>
   110 + 39 < height (concatenate demo_images)"
proof -
  note t = page_order_preserved [OF demo_render]
  from t have len: "length demo_images = length demo_pdf" by blast
  from t have a: "\<forall>i < length demo_pdf. get_pixmap demo_env (demo_pdf ! i) 2 2 =
      Inr (demo_images ! i)" by blast
  from a [rule_format, of 1]
  have g: "get_pixmap demo_env (demo_pdf ! 1) 2 2 = Inr (demo_images ! 1)"
    by (simp add: demo_pdf_def)
  from t have p: "nat ((int (Max (set (map width demo_images))) -
          int (width (demo_images ! i))) div 2) + a < width (concatenate demo_images) \<and>
      sum_list (map height (take i demo_images)) + b < height (concatenate demo_images) \<and>
      pixel (concatenate demo_images)
      (nat ((int (Max (set (map width demo_images))) - int (width (demo_images ! i))) div 2)
         + a)
      (sum_list (map height (take i demo_images)) + b) = pixel (demo_images ! i) a b"
    if "i < length demo_images" "a < width (demo_images ! i)" "b < height (demo_images ! i)"
    for i a b
    using that by blast
  have "pixel (concatenate demo_images) 10 0 = (50, 25, 0)"
    using p [of 0 0 0] by (simp add: demo_images_def)
  moreover have "pixel (concatenate demo_images) 20 50 = (40, 30, 0)"
    using p [of 1 0 0] by (simp add: demo_images_def)
  moreover have "pixel (concatenate demo_images) 0 110 = (60, 20, 0)"
    using p [of 2 0 0] by (simp add: demo_images_def)
  moreover have "20 + 79 < width (concatenate demo_images)"
    using p [of 1 79 0] by (simp add: demo_images_def)
  moreover have "110 + 39 < height (concatenate demo_images)"
    using p [of 2 0 39] by (simp add: demo_images_def)
  ultimately show ?thesis using demo_render len g by simp
qed

subsection \<open>The two converters\<close>

text \<open>
  Claim C5. The converter calls of a run are, in this order: LibreOffice with the
  timeout 120, once, as soon as the source exists and its folder is made; and only if
  LibreOffice ended without a PDF (not found, timeout, non-zero exit, or exit zero
  with no PDF) and the host is Windows, the import of \<open>win32com\<close> followed, if it
  succeeds, by one session with Word. LibreOffice is never started a second time.
\<close>

theorem backend_order:
  "filter is_backend_event (events_of env w word_path zoom_x zoom_y) =
     (let output_folder = output_folder_of env word_path;
          pdf_path = pdf_path_of env word_path;
          argv = libreoffice_argv output_folder word_path;
          run = subprocess_run env (fs (fst (makedirs output_folder w))) argv 120
      in if fs w word_path = None \<or> (\<exists>b. fs w output_folder = Some (File b)) then []
         else SubprocessRun argv 120 #
           (if (fst run = Completed \<and> snd run pdf_path \<noteq> None) \<or>
               (\<exists>e. fst run = ProcError e) \<or> os_name env \<noteq> ''nt''
            then []
            else ImportWin32com #
              (if win32com_importable env
               then [WordExport (abspath env word_path) (abspath env pdf_path) 17]
               else [])))"
  using events_of_trace [of env w word_path zoom_x zoom_y]
  by (simp add: backend_events_def)

theorem backend_order_witness:
  "filter is_backend_event (events_of nt_env nt_world nt_word_path 2 2) =
     [SubprocessRun [''libreoffice'', ''--headless'', ''--convert-to'', ''pdf'', ''--outdir'',
        ''documents'' @ backslash @ ''demo'', nt_word_path] 120,
      ImportWin32com,
      WordExport (''C:'' @ backslash @ ''work'' @ backslash @ nt_word_path)
        (''C:'' @ backslash @ ''work'' @ backslash @
           ''documents'' @ backslash @ ''demo'' @ backslash @ ''demo.pdf'') 17] \<and>
   filter is_backend_event (events_of demo_env demo_world ''documents/demo.docx'' 2 2) =
     [SubprocessRun [''libreoffice'', ''--headless'', ''--convert-to'', ''pdf'', ''--outdir'',
        ''documents/demo'', ''documents/demo.docx''] 120]"
proof -
  have nt: "filter is_backend_event (events_of nt_env nt_world nt_word_path 2 2) =
     [SubprocessRun [''libreoffice'', ''--headless'', ''--convert-to'', ''pdf'', ''--outdir'',
        ''documents'' @ backslash @ ''demo'', nt_word_path] 120,
      ImportWin32com,
      WordExport (''C:'' @ backslash @ ''work'' @ backslash @ nt_word_path)
        (''C:'' @ backslash @ ''work'' @ backslash @
           ''documents'' @ backslash @ ''demo'' @ backslash @ ''demo.pdf'') 17]"
    using backend_order [of nt_env nt_world nt_word_path 2 2] nt_word_exists nt_folder_free
    by (simp add: nt_paths nt_env_fields libreoffice_argv_def Let_def)
  have ex: "fs demo_world ''documents/demo.docx'' \<noteq> None"
    "fs demo_world ''documents/demo'' = None"
    by (simp_all add: demo_world_def)
  have run: "subprocess_run demo_env files argv t =
      (Completed, files(''documents/demo/demo.pdf'' \<mapsto> File ''%PDF''))" for files argv t
    by (simp add: demo_env_def)
  have posix: "filter is_backend_event
      (events_of demo_env demo_world ''documents/demo.docx'' 2 2) =
     [SubprocessRun [''libreoffice'', ''--headless'', ''--convert-to'', ''pdf'', ''--outdir'',
        ''documents/demo'', ''documents/demo.docx''] 120]"
    using backend_order [of demo_env demo_world "''documents/demo.docx''" 2 2] ex
    by (simp add: demo_paths run libreoffice_argv_def Let_def)
  from nt posix show ?thesis by simp
qed


text \<open>
  Claim C10. \<open>os.replace\<close> is never called: the path LibreOffice is expected to write
  is built like the target path, so the guard of line 61 is false whenever it is reached.
\<close>

theorem replace_unreachable:
  "OsReplace a b \<notin> set (events_of env w word_path zoom_x zoom_y)"
  using events_of_trace [of env w word_path zoom_x zoom_y] by simp

theorem replace_unreachable_witness:
  "fs demo_converted ''documents/demo/demo.pdf'' \<noteq> None \<and>
   OsReplace ''documents/demo/demo.pdf'' ''documents/demo/demo.pdf''
     \<notin> set (events_of demo_env demo_world ''documents/demo.docx'' 2 2)"
  using replace_unreachable [of "''documents/demo/demo.pdf''" "''documents/demo/demo.pdf''"
      demo_env demo_world "''documents/demo.docx''" 2 2]
  by (simp add: demo_converted_def)


subsection \<open>The artifacts\<close>

text \<open>
  Claim C2. When the PDF that the conversion left has no page, the function raises
  \<open>ValueError\<close>, the error of an empty document, right after opening it: the file
  system is the one the conversion left, so neither \<open>img.jpg\<close> nor \<open>base64.txt\<close> is
  written, and the log grows by the announcement and the opening of the PDF only.
\<close>

theorem empty_document_rejected:
  assumes "word_to_pdf env w word_path = (w1, Inr (pdf_path, image_path, base64_txt_path))"
    and "fitz_open env (fs w1) pdf_path = Inr []"
  shows "word_to_base64image env w word_path zoom_x zoom_y =
     (w1\<lparr>trace := trace w1 @ [Print (MsgRendering pdf_path), FitzOpen pdf_path]\<rparr>,
      Inl (ValueError no_pages_msg))"
  using assms
  by (simp add: word_to_base64image_def pdf_to_base64image_def emit_def)

theorem empty_document_rejected_witness:
  "word_to_pdf empty_pdf_env demo_world ''documents/demo.docx'' =
     (demo_converted,
      Inr (''documents/demo/demo.pdf'', ''documents/demo/img.jpg'',
           ''documents/demo/base64.txt'')) \<and>
   fitz_open empty_pdf_env (fs demo_converted) ''documents/demo/demo.pdf'' = Inr [] \<and>
   word_to_base64image empty_pdf_env demo_world ''documents/demo.docx'' 2 2 =
     (demo_converted\<lparr>trace := trace demo_converted @
        [Print (MsgRendering ''documents/demo/demo.pdf''),
         FitzOpen ''documents/demo/demo.pdf'']\<rparr>,
      Inl (ValueError no_pages_msg)) \<and>
   fs demo_converted ''documents/demo/img.jpg'' = None \<and>
   fs demo_converted ''documents/demo/base64.txt'' = None"
proof -
  have h: "fitz_open empty_pdf_env (fs demo_converted) ''documents/demo/demo.pdf'' = Inr []"
    by (simp add: empty_pdf_env_def)
  from empty_document_rejected [OF empty_pdf_word_to_pdf h, of 2 2]
  show ?thesis
    using empty_pdf_word_to_pdf h by (simp add: demo_converted_def)
qed


text \<open>
  Claim C7. When the function returns, the text file holds
  \<open>data:image/jpeg;base64,\<close> followed by the base64 encoding of the JPEG bytes, at
  quality 95, of the composite of the rendered pages, and nothing else.
\<close>

theorem base64_artifact_content:
  assumes "word_to_base64image env w word_path zoom_x zoom_y =
      (w', Inr (pdf_path, image_path, base64_txt_path))"
  shows "\<exists>w1 pdf images jpeg.
     word_to_pdf env w word_path = (w1, Inr (pdf_path, image_path, base64_txt_path)) \<and>
     fitz_open env (fs w1) pdf_path = Inr pdf \<and>
     render_pages env pdf zoom_x zoom_y [0..<length pdf] = Inr images \<and>
     images \<noteq> [] \<and>
     jpeg_encode env (concatenate images) 95 = Inr jpeg \<and>
     fs w' base64_txt_path = Some (File (''data:image/jpeg;base64,'' @ b64encode jpeg))"
  using assms
  by (auto simp: word_to_base64image_def pdf_to_base64image_def emit_def write_file_def
        Let_def split: prod.splits sum.splits if_splits)

theorem base64_artifact_content_witness:
  "word_to_base64image demo_env demo_world ''documents/demo.docx'' 2 2 =
     (demo_done,
      Inr (''documents/demo/demo.pdf'', ''documents/demo/img.jpg'',
           ''documents/demo/base64.txt'')) \<and>
   fs demo_done ''documents/demo/base64.txt'' =
     Some (File (''data:image/jpeg;base64,'' @ b64encode ''JFIF'')) \<and>
   b64encode ''JFIF'' = ''SkZJRg==''"
proof -
  from base64_artifact_content [OF demo_run]
  obtain jpeg images where
    "jpeg_encode demo_env (concatenate images) 95 = Inr jpeg"
    "fs demo_done ''documents/demo/base64.txt'' =
       Some (File (''data:image/jpeg;base64,'' @ b64encode jpeg))"
    by blast
  then have "fs demo_done ''documents/demo/base64.txt'' =
     Some (File (''data:image/jpeg;base64,'' @ b64encode ''JFIF''))"
    by (simp add: demo_env_def)
  with demo_run show ?thesis
    by (simp add: b64_char_def b64_alphabet_def)
qed


text \<open>
  Claim C8. What the function returns is the triple of the PDF path, \<open>img.jpg\<close> and
  \<open>base64.txt\<close> in the folder named after the source without its extension, beside the
  source. The triple depends on the source path only: another call on the same path,
  in whatever world and with whatever zoom, returns the same three paths.
\<close>

theorem output_paths_deterministic:
  assumes "word_to_base64image (env :: ('z, 'p) env) w word_path zoom_x zoom_y = (w', Inr r)"
  shows "r = (let name_without_ext = fst (splitext (os_path env) (basename (os_path env) word_path));
                  output_folder = join (os_path env) (dirname (os_path env) word_path) name_without_ext
              in (join (os_path env) output_folder (name_without_ext @ ''.pdf''),
                  join (os_path env) output_folder ''img.jpg'',
                  join (os_path env) output_folder ''base64.txt'')) \<and>
         (\<forall>env2 w2 z1 z2 w2' r2.
            os_path env2 = os_path env \<and>
            word_to_base64image (env2 :: ('z, 'p) env) w2 word_path z1 z2 = (w2', Inr r2)
            \<longrightarrow> r2 = r)"
proof -
  have ret: "r' = output_paths e word_path"
    if "word_to_base64image e v word_path x y = (v', Inr r')"
    for e :: "('z, 'p) env" and v x y v' r'
  proof -
    obtain v1 r1 where p: "word_to_pdf e v word_path = (v1, r1)"
      by (cases "word_to_pdf e v word_path")
    with that obtain paths where r1: "r1 = Inr paths"
      by (cases r1) (auto simp: word_to_base64image_def)
    with p have paths: "paths = output_paths e word_path"
      using word_to_pdf_paths by blast
    from that p r1 have "r' = paths"
      by (auto simp: word_to_base64image_def pdf_to_base64image_def Let_def
          split: prod.splits sum.splits if_splits)
    with paths show ?thesis by simp
  qed
  have same: "output_paths env2 word_path = output_paths env word_path"
    if "os_path env2 = os_path env" for env2 :: "('z, 'p) env"
    using that
    by (simp add: output_paths_def pdf_path_of_def output_folder_of_def name_without_ext_of_def)
  from ret [OF assms] have "r = output_paths env word_path" .
  moreover from this ret same have "\<forall>env2 w2 z1 z2 w2' r2.
            os_path env2 = os_path env \<and>
            word_to_base64image (env2 :: ('z, 'p) env) w2 word_path z1 z2 = (w2', Inr r2)
            \<longrightarrow> r2 = r"
    by metis
  ultimately show ?thesis
    by (simp add: output_paths_def pdf_path_of_def output_folder_of_def
        name_without_ext_of_def Let_def)
qed

theorem output_paths_deterministic_witness:
  "word_to_base64image demo_env demo_world ''documents/demo.docx'' 2 2 =
     (demo_done,
      Inr (''documents/demo/demo.pdf'', ''documents/demo/img.jpg'',
           ''documents/demo/base64.txt'')) \<and>
   snd (word_to_base64image demo_env demo_done ''documents/demo.docx'' 3 3) =
     Inr (''documents/demo/demo.pdf'', ''documents/demo/img.jpg'',
          ''documents/demo/base64.txt'')"
  using output_paths_deterministic [OF demo_run] demo_run demo_second_run
  by simp


subsection \<open>When no converter delivers\<close>

text \<open>
  Claim C4, as the code has it. When LibreOffice ends without a PDF and Word is not
  tried (the host is not Windows) or fails (no \<open>win32com\<close>, or an exception in the
  session), the function raises \<open>RuntimeError\<close> with one fixed message, whatever the
  reasons were. The reason of each converter is printed on the console and is no part of
  the exception.
\<close>

theorem conversion_error_fixed_message:
  assumes "fs w word_path \<noteq> None"
    and "makedirs (output_folder_of env word_path) w = (w1, Inr u)"
    and "subprocess_run env (fs w1)
           (libreoffice_argv (output_folder_of env word_path) word_path) 120 = (r, files)"
    and "r = ExecNotFound \<or> r = TimeoutExpired \<or> (\<exists>stderr. r = CalledProcessError stderr) \<or>
         (r = Completed \<and> files (pdf_path_of env word_path) = None)"
    and "os_name env \<noteq> ''nt'' \<or> \<not> win32com_importable env \<or>
         (\<exists>e. fst (word_session env files (abspath env word_path)
                  (abspath env (pdf_path_of env word_path)) 17) = Some e)"
  shows "snd (word_to_base64image env w word_path zoom_x zoom_y) =
           Inl (RuntimeError all_failed_msg) \<and>
         (r = ExecNotFound \<longrightarrow>
            Print MsgLibreOfficeMissing \<in> set (events_of env w word_path zoom_x zoom_y)) \<and>
         (r = TimeoutExpired \<longrightarrow>
            Print MsgLibreOfficeTimeout \<in> set (events_of env w word_path zoom_x zoom_y)) \<and>
         (\<forall>stderr. r = CalledProcessError stderr \<longrightarrow>
            Print (MsgLibreOfficeFailed stderr)
              \<in> set (events_of env w word_path zoom_x zoom_y)) \<and>
         (os_name env = ''nt'' \<and> \<not> win32com_importable env \<longrightarrow>
            Print MsgNoPywin32 \<in> set (events_of env w word_path zoom_x zoom_y)) \<and>
         (\<forall>e. os_name env = ''nt'' \<and> win32com_importable env \<and>
              fst (word_session env files (abspath env word_path)
                     (abspath env (pdf_path_of env word_path)) 17) = Some e \<longrightarrow>
            Print (MsgWordFailed e) \<in> set (events_of env w word_path zoom_x zoom_y))"
proof -
  have t1: "trace w1 = trace w @ [Makedirs (output_folder_of env word_path)]"
    using makedirs_Inr [OF assms(2)] by simp
  show ?thesis
    using assms(3,4,5) t1
    by (cases r)
      (auto simp: events_of_cases word_to_base64image_def word_to_pdf_exists [OF assms(1)]
         assms(2) libreoffice_method_at word_method_eq emit_def Let_def
         split: option.splits)
qed

theorem conversion_error_fixed_message_witness:
  "fs nt_world nt_word_path \<noteq> None \<and>
   makedirs (output_folder_of nt_failing_env nt_word_path) nt_world = (nt_made, Inr ()) \<and>
   subprocess_run nt_failing_env (fs nt_made)
     (libreoffice_argv (output_folder_of nt_failing_env nt_word_path) nt_word_path) 120 =
       (CalledProcessError ''Error: source file could not be loaded'', fs nt_made) \<and>
   os_name nt_failing_env = ''nt'' \<and> win32com_importable nt_failing_env \<and>
   fst (word_session nt_failing_env (fs nt_made) (abspath nt_failing_env nt_word_path)
          (abspath nt_failing_env (pdf_path_of nt_failing_env nt_word_path)) 17) =
     Some ''Word could not open the document'' \<and>
   snd (word_to_base64image nt_failing_env nt_world nt_word_path 2 2) =
     Inl (RuntimeError all_failed_msg) \<and>
   Print (MsgLibreOfficeFailed ''Error: source file could not be loaded'')
     \<in> set (events_of nt_failing_env nt_world nt_word_path 2 2) \<and>
   Print (MsgWordFailed ''Word could not open the document'')
     \<in> set (events_of nt_failing_env nt_world nt_word_path 2 2)"
proof -
  have h2: "makedirs (output_folder_of nt_failing_env nt_word_path) nt_world =
      (nt_made, Inr ())"
    using nt_folder_free
    by (simp add: nt_failing_paths makedirs_def emit_def nt_made_def nt_world_def)
  have h3: "subprocess_run nt_failing_env (fs nt_made)
     (libreoffice_argv (output_folder_of nt_failing_env nt_word_path) nt_word_path) 120 =
       (CalledProcessError ''Error: source file could not be loaded'', fs nt_made)"
    by (simp add: nt_failing_env_fields)
  have h4: "CalledProcessError ''Error: source file could not be loaded'' = ExecNotFound \<or>
      CalledProcessError ''Error: source file could not be loaded'' = TimeoutExpired \<or>
      (\<exists>stderr. CalledProcessError ''Error: source file could not be loaded'' =
         CalledProcessError stderr) \<or>
      (CalledProcessError ''Error: source file could not be loaded'' = Completed \<and>
       fs nt_made (pdf_path_of nt_failing_env nt_word_path) = None)"
    by simp
  have h5: "os_name nt_failing_env \<noteq> ''nt'' \<or> \<not> win32com_importable nt_failing_env \<or>
      (\<exists>e. fst (word_session nt_failing_env (fs nt_made)
          (abspath nt_failing_env nt_word_path)
          (abspath nt_failing_env (pdf_path_of nt_failing_env nt_word_path)) 17) = Some e)"
    by (simp add: nt_failing_env_fields)
  from conversion_error_fixed_message [OF nt_word_exists h2 h3 h4 h5, of 2 2]
  show ?thesis
    using nt_word_exists h2 h3 by (simp add: nt_failing_env_fields)
qed

text \<open>
  Claim C4 as the specification states it, with the reasons of both converters in the
  content of the error, does not hold. On the Windows host on which LibreOffice exits
  with an error on stderr and Word raises, the exception carries the fixed message,
  which contains neither text; and it is the very exception raised on the POSIX host
  on which LibreOffice is not installed.
\<close>

theorem conversion_error_not_aggregating:
  "snd (word_to_base64image nt_failing_env nt_world nt_word_path 2 2) =
     Inl (RuntimeError all_failed_msg) \<and>
   \<not> contains all_failed_msg ''Error: source file could not be loaded'' \<and>
   \<not> contains all_failed_msg ''Word could not open the document'' \<and>
   snd (word_to_base64image missing_env demo_world ''documents/demo.docx'' 2 2) =
     Inl (RuntimeError all_failed_msg)"
proof -
  have a: "snd (word_to_base64image nt_failing_env nt_world nt_word_path 2 2) =
     Inl (RuntimeError all_failed_msg)"
    by (simp add: word_to_base64image_def word_to_pdf_def stage_defs nt_failing_env_def
        nt_env_def nt_defs nt_world_def)
  have b: "snd (word_to_base64image missing_env demo_world ''documents/demo.docx'' 2 2) =
     Inl (RuntimeError all_failed_msg)"
    by (simp add: word_to_base64image_def word_to_pdf_def stage_defs missing_env_def
        demo_env_def posix_defs demo_world_def)
  have c: "\<not> contains all_failed_msg ''Error: source file could not be loaded''"
    by (simp add: all_failed_msg_def)
  have d: "\<not> contains all_failed_msg ''Word could not open the document''"
    by (simp add: all_failed_msg_def)
  from a b c d show ?thesis by simp
qed


text \<open>
  Claim C9. When LibreOffice exits with status zero and the expected PDF is not there,
  \<open>converted\<close> stays false. What follows is what follows a failure of LibreOffice that
  leaves the same files: the same result, the same files and the same calls in the same
  order; only the console line of the failure is missing. Off Windows that is the
  \<open>RuntimeError\<close> of line 94, on Windows the Word method is entered.
\<close>

theorem exit_zero_without_pdf_is_failure:
  assumes "fs w word_path \<noteq> None"
    and "makedirs (output_folder_of env word_path) w = (w1, Inr u)"
    and "subprocess_run env (fs w1)
           (libreoffice_argv (output_folder_of env word_path) word_path) 120 =
             (Completed, files)"
    and "files (pdf_path_of env word_path) = None"
    and "failure = ExecNotFound \<or> failure = TimeoutExpired \<or>
         (\<exists>stderr. failure = CalledProcessError stderr)"
  shows "snd (libreoffice_method env
                (emit (Print (MsgConverting word_path (pdf_path_of env word_path))) w1)
                word_path (output_folder_of env word_path)
                (name_without_ext_of env word_path) (pdf_path_of env word_path)) = Inr False \<and>
     (os_name env \<noteq> ''nt'' \<longrightarrow>
        snd (word_to_base64image env w word_path zoom_x zoom_y) =
          Inl (RuntimeError all_failed_msg)) \<and>
     (os_name env = ''nt'' \<longrightarrow>
        ImportWin32com \<in> set (events_of env w word_path zoom_x zoom_y)) \<and>
     snd (word_to_base64image env w word_path zoom_x zoom_y) =
       snd (word_to_base64image (as_if_failed env failure) w word_path zoom_x zoom_y) \<and>
     fs (fst (word_to_base64image env w word_path zoom_x zoom_y)) =
       fs (fst (word_to_base64image (as_if_failed env failure) w word_path zoom_x zoom_y)) \<and>
     filter (\<lambda>e. \<not> is_print e) (events_of env w word_path zoom_x zoom_y) =
       filter (\<lambda>e. \<not> is_print e)
         (events_of (as_if_failed env failure) w word_path zoom_x zoom_y)"
proof -
  let ?env2 = "as_if_failed env failure"
  have flag: "snd (libreoffice_method env
                (emit (Print (MsgConverting word_path (pdf_path_of env word_path))) w1)
                word_path (output_folder_of env word_path)
                (name_without_ext_of env word_path) (pdf_path_of env word_path)) = Inr False"
    using assms(3,4) by (simp add: libreoffice_method_at emit_def Let_def)
  have t1: "trace w1 = trace w @ [Makedirs (output_folder_of env word_path)]"
    using makedirs_Inr [OF assms(2)] by simp
  have posix: "snd (word_to_base64image env w word_path zoom_x zoom_y) =
          Inl (RuntimeError all_failed_msg)" if "os_name env \<noteq> ''nt''"
    using assms(3,4) that
    by (simp add: word_to_base64image_def word_to_pdf_exists [OF assms(1)] assms(2)
        libreoffice_method_at word_method_eq emit_def Let_def)
  have nt: "ImportWin32com \<in> set (events_of env w word_path zoom_x zoom_y)"
    if "os_name env = ''nt''"
  proof -
    have "ImportWin32com \<in> set (backend_events env w word_path)"
      using assms(1,3,4) makedirs_Inr [OF assms(2)] that
      by (simp add: backend_events_def assms(2) Let_def)
    with events_of_trace [of env w word_path zoom_x zoom_y]
    have "ImportWin32com \<in> set (filter is_backend_event
        (events_of env w word_path zoom_x zoom_y))"
      by simp
    then show ?thesis by simp
  qed
  obtain wa ra where a: "word_to_pdf env w word_path = (wa, ra)"
    by (cases "word_to_pdf env w word_path")
  obtain wb rb where b: "word_to_pdf ?env2 w word_path = (wb, rb)"
    by (cases "word_to_pdf ?env2 w word_path")
  from word_to_pdf_as_if_failed [OF assms] a b
  obtain evs evs2 where e: "trace wa = trace w @ evs" "trace wb = trace w @ evs2"
      "filter (\<lambda>e. \<not> is_print e) evs = filter (\<lambda>e. \<not> is_print e) evs2"
      "fs wa = fs wb" "ra = rb"
    by auto
  have rest: "snd (word_to_base64image env w word_path zoom_x zoom_y) =
       snd (word_to_base64image ?env2 w word_path zoom_x zoom_y) \<and>
     fs (fst (word_to_base64image env w word_path zoom_x zoom_y)) =
       fs (fst (word_to_base64image ?env2 w word_path zoom_x zoom_y)) \<and>
     filter (\<lambda>e. \<not> is_print e) (events_of env w word_path zoom_x zoom_y) =
       filter (\<lambda>e. \<not> is_print e) (events_of ?env2 w word_path zoom_x zoom_y)"
  proof (cases ra)
    case (Inl err)
    with e(5) have "rb = Inl err" by simp
    with Inl a b e(1-4) show ?thesis
      by (simp add: word_to_base64image_def events_of_cases)
  next
    case (Inr paths)
    from pdf_to_base64image_frame [of wa wb ?env2 env paths zoom_x zoom_y, OF e(4)]
    obtain evs3 where f:
      "trace (fst (pdf_to_base64image env wa paths zoom_x zoom_y)) = trace wa @ evs3"
      "trace (fst (pdf_to_base64image ?env2 wb paths zoom_x zoom_y)) = trace wb @ evs3"
      "fs (fst (pdf_to_base64image env wa paths zoom_x zoom_y)) =
         fs (fst (pdf_to_base64image ?env2 wb paths zoom_x zoom_y))"
      "snd (pdf_to_base64image env wa paths zoom_x zoom_y) =
         snd (pdf_to_base64image ?env2 wb paths zoom_x zoom_y)"
      by auto
    from Inr e(5) have "rb = Inr paths" by simp
    with Inr a b e(1-4) f show ?thesis
      by (simp add: word_to_base64image_def events_of_cases)
  qed
  from flag posix nt rest show ?thesis by blast
qed

theorem exit_zero_without_pdf_is_failure_witness:
  "fs demo_world ''documents/demo.docx'' \<noteq> None \<and>
   makedirs (output_folder_of silent_env ''documents/demo.docx'') demo_world =
     (demo_made, Inr ()) \<and>
   subprocess_run silent_env (fs demo_made)
     (libreoffice_argv (output_folder_of silent_env ''documents/demo.docx'')
        ''documents/demo.docx'') 120 = (Completed, fs demo_made) \<and>
   fs demo_made (pdf_path_of silent_env ''documents/demo.docx'') = None \<and>
   snd (word_to_base64image silent_env demo_world ''documents/demo.docx'' 2 2) =
     Inl (RuntimeError all_failed_msg) \<and>
   snd (word_to_base64image (as_if_failed silent_env TimeoutExpired) demo_world
          ''documents/demo.docx'' 2 2) = Inl (RuntimeError all_failed_msg)"
proof -
  have h1: "fs demo_world ''documents/demo.docx'' \<noteq> None"
    by (simp add: demo_world_def)
  have h2: "makedirs (output_folder_of silent_env ''documents/demo.docx'') demo_world =
     (demo_made, Inr ())"
    by (simp add: silent_paths makedirs_def emit_def demo_made_def demo_world_def)
  have h3: "subprocess_run silent_env (fs demo_made)
     (libreoffice_argv (output_folder_of silent_env ''documents/demo.docx'')
        ''documents/demo.docx'') 120 = (Completed, fs demo_made)"
    by (simp add: silent_env_def)
  have h4: "fs demo_made (pdf_path_of silent_env ''documents/demo.docx'') = None"
    by (simp add: silent_paths demo_made_def)
  have h5: "TimeoutExpired = ExecNotFound \<or> TimeoutExpired = TimeoutExpired \<or>
      (\<exists>stderr. TimeoutExpired = CalledProcessError stderr)"
    by simp
  have posix: "os_name silent_env \<noteq> ''nt''"
    by (simp add: silent_env_def demo_env_def)
  note t = exit_zero_without_pdf_is_failure [OF h1 h2 h3 h4 h5, of 2 2]
  from t posix
  have a: "snd (word_to_base64image silent_env demo_world ''documents/demo.docx'' 2 2) =
     Inl (RuntimeError all_failed_msg)"
    by blast
  from t
  have "snd (word_to_base64image silent_env demo_world ''documents/demo.docx'' 2 2) =
     snd (word_to_base64image (as_if_failed silent_env TimeoutExpired) demo_world
          ''documents/demo.docx'' 2 2)"
    by blast
  with a
  have b: "snd (word_to_base64image (as_if_failed silent_env TimeoutExpired) demo_world
          ''documents/demo.docx'' 2 2) = Inl (RuntimeError all_failed_msg)"
    by simp
  from a b h1 h2 h3 h4 show ?thesis by simp
qed

end
